theory Spec2Isabelle
  imports Complex_Main
begin

section \<open>Hull visualizer: weight ledger, selection engine, mesh generation\<close>

text \<open>
  Shallow embedding of the TypeScript sources. JavaScript numbers are modelled as
  \<^typ>\<open>real\<close> (exact arithmetic, no rounding, no NaN) everywhere except in the final
  vertex-buffer validation of \<open>generateStructuredHullGeometry\<close>, where the non-finite
  values are the point and a datatype with NaN and the two infinities is used.
  A \<open>THREE.Vector3\<close> is a triple of numbers. Object identity of a \<open>THREE.Mesh\<close> is its
  numeric \<open>id\<close>. Rendering side effects (highlight overlay, marker geometry, console
  output) are not part of the model.
\<close>

subsection \<open>Vectors\<close>

type_synonym vec3 = "real \<times> real \<times> real"

definition vadd :: "vec3 \<Rightarrow> vec3 \<Rightarrow> vec3" where
  "vadd a b = (case a of (ax, ay, az) \<Rightarrow> case b of (bx, by, bz) \<Rightarrow> (ax + bx, ay + by, az + bz))"

definition multiplyScalar :: "vec3 \<Rightarrow> real \<Rightarrow> vec3" where
  "multiplyScalar a k = (case a of (ax, ay, az) \<Rightarrow> (ax * k, ay * k, az * k))"

definition distanceTo :: "vec3 \<Rightarrow> vec3 \<Rightarrow> real" where
  "distanceTo a b = (case a of (ax, ay, az) \<Rightarrow> case b of (bx, by, bz) \<Rightarrow>
     sqrt ((ax - bx) * (ax - bx) + (ay - by) * (ay - by) + (az - bz) * (az - bz)))"

subsection \<open>Weight ledger (physics.ts)\<close>

record Weight =
  position :: vec3
  magnitude :: real

record Physics =
  thickness :: real
  weight :: real
  customWeights :: "Weight list"
  paintedWeights :: "Weight list"

text \<open>\<open>class Hull extends Physics\<close>: the ledger fields plus the handles (object ids) of the
  separately generated surfaces returned by \<open>getSeparatedHullMesh\<close>.\<close>

record Hull = Physics +
  hullMesh :: nat
  transomMesh :: "nat option"
  bowMesh :: "nat option"
  deckMesh :: "nat option"
  stationsMesh :: "nat list"

definition setPaintedWeights :: "Weight list \<Rightarrow> 'a Physics_scheme \<Rightarrow> 'a Physics_scheme" where
  "setPaintedWeights weights p = p\<lparr>paintedWeights := weights\<rparr>"

definition getPaintedWeights :: "'a Physics_scheme \<Rightarrow> Weight list" where
  "getPaintedWeights p = paintedWeights p"

definition clearPaintedWeights :: "'a Physics_scheme \<Rightarrow> 'a Physics_scheme" where
  "clearPaintedWeights p = p\<lparr>paintedWeights := []\<rparr>"

text \<open>\<open>arr.reduce((sum, w) => sum + w.magnitude, 0)\<close>: a left fold from 0.\<close>

definition sumMagnitudes :: "Weight list \<Rightarrow> real" where
  "sumMagnitudes ws = foldl (\<lambda>total w. total + magnitude w) 0 ws"


subsection \<open>Selection engine (paint\_selection\_tool.ts)\<close>

text \<open>A mesh: its object id, the flat position buffer, the optional index buffer, and the
  two transforms the tool uses (\<open>worldToLocal\<close> and \<open>applyMatrix4(matrixWorld)\<close>).\<close>

record Mesh =
  mesh_id :: nat
  geom_positions :: "real list"
  geom_index :: "nat list option"
  worldToLocal :: "vec3 \<Rightarrow> vec3"
  matrixWorld :: "vec3 \<Rightarrow> vec3"

record FaceData =
  worldCenter :: vec3
  fd_mesh :: Mesh
  faceIndex :: nat
  meshType :: string
  localCenter :: vec3

text \<open>A JavaScript \<open>Map\<close> keeps insertion order: an association list with \<open>has\<close>, \<open>set\<close>
  (overwrite in place, or append) and \<open>delete\<close>.\<close>

definition map_has :: "('k \<times> 'v) list \<Rightarrow> 'k \<Rightarrow> bool" where
  "map_has m k = (k \<in> set (map fst m))"

fun map_set :: "'k \<Rightarrow> 'v \<Rightarrow> ('k \<times> 'v) list \<Rightarrow> ('k \<times> 'v) list" where
  "map_set k v [] = [(k, v)]"
| "map_set k v (p # ps) = (if fst p = k then (k, v) # ps else p # map_set k v ps)"

definition map_delete :: "'k \<Rightarrow> ('k \<times> 'v) list \<Rightarrow> ('k \<times> 'v) list" where
  "map_delete k m = filter (\<lambda>p. fst p \<noteq> k) m"

record PaintSelectionTool =
  pst_hull :: "Hull option"
  isPainting :: bool
  isRemoving :: bool
  selectedFaces :: "nat set"
  brushSize :: real
  faceData :: "(nat \<times> FaceData) list"
  brushHelperVisible :: bool
  lastPaintPosition :: "vec3 option"

definition newPaintSelectionTool :: PaintSelectionTool where
  "newPaintSelectionTool =
     \<lparr>pst_hull = None, isPainting = False, isRemoving = False, selectedFaces = {},
      brushSize = 1/2, faceData = [], brushHelperVisible = False, lastPaintPosition = None\<rparr>"

definition setHull_tool :: "Hull \<Rightarrow> PaintSelectionTool \<Rightarrow> PaintSelectionTool" where
  "setHull_tool h t = t\<lparr>pst_hull := Some h\<rparr>"

definition setBrushSize :: "real \<Rightarrow> PaintSelectionTool \<Rightarrow> PaintSelectionTool" where
  "setBrushSize sz t = t\<lparr>brushSize := sz\<rparr>"

definition setRemoveMode :: "bool \<Rightarrow> PaintSelectionTool \<Rightarrow> PaintSelectionTool" where
  "setRemoveMode removing t = t\<lparr>isRemoving := removing\<rparr>"

definition getMeshType :: "PaintSelectionTool \<Rightarrow> Mesh \<Rightarrow> string" where
  "getMeshType t mesh =
     (case pst_hull t of
        None \<Rightarrow> ''unknown''
      | Some h \<Rightarrow>
          if mesh_id mesh = hullMesh h then ''hull''
          else if Some (mesh_id mesh) = transomMesh h then ''transom''
          else if Some (mesh_id mesh) = bowMesh h then ''bow''
          else if Some (mesh_id mesh) = deckMesh h then ''deck''
          else if mesh_id mesh \<in> set (stationsMesh h) then ''station''
          else ''unknown'')"

definition getFaceUniqueId :: "Mesh \<Rightarrow> nat \<Rightarrow> nat" where
  "getFaceUniqueId mesh fi = mesh_id mesh * 1000000 + fi"

text \<open>Reading vertex \<open>index[k]\<close> from the position buffer. A read outside either buffer
  yields \<open>undefined\<close> in JavaScript, the vertex then has a NaN coordinate and every
  comparison with the resulting distance is false: \<open>None\<close> here.\<close>

definition faceVertex :: "real list \<Rightarrow> nat list \<Rightarrow> nat \<Rightarrow> vec3 option" where
  "faceVertex ps idx k =
     (if k < length idx \<and> idx ! k * 3 + 2 < length ps
      then Some (ps ! (idx ! k * 3), ps ! (idx ! k * 3 + 1), ps ! (idx ! k * 3 + 2))
      else None)"

definition faceCenterOf :: "real list \<Rightarrow> nat list \<Rightarrow> nat \<Rightarrow> vec3 option" where
  "faceCenterOf ps idx fi =
     (case (faceVertex ps idx (3 * fi), faceVertex ps idx (3 * fi + 1), faceVertex ps idx (3 * fi + 2)) of
        (Some v1, Some v2, Some v3) \<Rightarrow>
          Some (multiplyScalar (vadd (vadd (vadd (0, 0, 0) v1) v2) v3) (1 / 3))
      | _ \<Rightarrow> None)"

text \<open>The test \<open>faceCenter.distanceTo(localPoint) <= this.brushSize\<close>.\<close>

definition withinBrush :: "PaintSelectionTool \<Rightarrow> Mesh \<Rightarrow> nat list \<Rightarrow> vec3 \<Rightarrow> nat \<Rightarrow> bool" where
  "withinBrush t mesh idx localPoint fi =
     (case faceCenterOf (geom_positions mesh) idx fi of
        None \<Rightarrow> False
      | Some c \<Rightarrow> distanceTo c localPoint \<le> brushSize t)"

text \<open>The body of the loop over faces, for the face with local index \<open>fi\<close>.\<close>

definition selectFace ::
  "Mesh \<Rightarrow> nat list \<Rightarrow> string \<Rightarrow> vec3 \<Rightarrow> nat \<Rightarrow> PaintSelectionTool \<Rightarrow> PaintSelectionTool" where
  "selectFace mesh idx mtype localPoint fi t =
     (case faceCenterOf (geom_positions mesh) idx fi of
        None \<Rightarrow> t
      | Some faceCenter \<Rightarrow>
          if distanceTo faceCenter localPoint \<le> brushSize t then
            (let uniqueFaceId = getFaceUniqueId mesh fi in
             if \<not> isRemoving t then
               (let t1 = (if \<not> map_has (faceData t) uniqueFaceId
                          then t\<lparr>faceData := map_set uniqueFaceId
                                   \<lparr>worldCenter = matrixWorld mesh faceCenter, fd_mesh = mesh,
                                    faceIndex = fi, meshType = mtype, localCenter = faceCenter\<rparr>
                                   (faceData t)\<rparr>
                          else t)
                in t1\<lparr>selectedFaces := insert uniqueFaceId (selectedFaces t1)\<rparr>)
             else
               (if uniqueFaceId \<in> selectedFaces t
                then t\<lparr>selectedFaces := selectedFaces t - {uniqueFaceId},
                       faceData := map_delete uniqueFaceId (faceData t)\<rparr>
                else t))
          else t)"

text \<open>\<open>for (let i = 0; i < index.length; i += 3)\<close> visits the faces
  \<open>0, 1, \<dots>, \<lceil>length / 3\<rceil> - 1\<close>.\<close>

definition selectFacesAroundPoint :: "vec3 \<Rightarrow> Mesh \<Rightarrow> PaintSelectionTool \<Rightarrow> PaintSelectionTool" where
  "selectFacesAroundPoint worldPoint hitMesh t =
     (if pst_hull t = None then t
      else case geom_index hitMesh of
        None \<Rightarrow> t
      | Some idx \<Rightarrow>
          fold (selectFace hitMesh idx (getMeshType t hitMesh) (worldToLocal hitMesh worldPoint))
               [0 ..< (length idx + 2) div 3] t)"

definition clearSelection :: "PaintSelectionTool \<Rightarrow> PaintSelectionTool" where
  "clearSelection t =
     t\<lparr>selectedFaces := {}, faceData := [], brushHelperVisible := False, lastPaintPosition := None\<rparr>"

definition getFaceData :: "PaintSelectionTool \<Rightarrow> (nat \<times> FaceData) list" where
  "getFaceData t = faceData t"

definition getSelectedFaceCount :: "PaintSelectionTool \<Rightarrow> nat" where
  "getSelectedFaceCount t = card (selectedFaces t)"

text \<open>A brush path: the successive calls of \<open>selectFacesAroundPoint\<close>.\<close>

definition paintPath :: "(vec3 \<times> Mesh) list \<Rightarrow> PaintSelectionTool \<Rightarrow> PaintSelectionTool" where
  "paintPath path t = fold (\<lambda>pm. selectFacesAroundPoint (fst pm) (snd pm)) path t"

subsection \<open>Weight manager (weight\_manager.ts)\<close>

record Marker =
  marker_position :: vec3
  marker_weight :: real
  marker_index :: nat

record WeightManager =
  wm_hull :: "Hull option"
  paintSelectionTool :: PaintSelectionTool
  weightPerFace :: real
  weightMarkers :: "Marker list"

definition selectionWeights :: "WeightManager \<Rightarrow> Weight list" where
  "selectionWeights wm =
     map (\<lambda>p. \<lparr>position = worldCenter (snd p), magnitude = weightPerFace wm\<rparr>)
         (filter (\<lambda>p. fst p \<in> selectedFaces (paintSelectionTool wm))
                 (getFaceData (paintSelectionTool wm)))"

definition createWeightMarkers :: "Weight list \<Rightarrow> Marker list" where
  "createWeightMarkers weights =
     map (\<lambda>iw. \<lparr>marker_position = position (snd iw), marker_weight = magnitude (snd iw),
                marker_index = fst iw\<rparr>)
         (enumerate 0 weights)"

definition applyWeightToSelection :: "WeightManager \<Rightarrow> bool \<times> WeightManager" where
  "applyWeightToSelection wm =
     (case wm_hull wm of
        None \<Rightarrow> (False, wm)
      | Some h \<Rightarrow>
          if length (getFaceData (paintSelectionTool wm)) = 0 then (False, wm)
          else
            (let weights = selectionWeights wm
             in (True, wm\<lparr>wm_hull := Some (setPaintedWeights weights h),
                          weightMarkers := createWeightMarkers weights,
                          paintSelectionTool := clearSelection (paintSelectionTool wm)\<rparr>)))"

definition getAppliedWeight :: "WeightManager \<Rightarrow> real" where
  "getAppliedWeight wm =
     (case wm_hull wm of None \<Rightarrow> 0 | Some h \<Rightarrow> sumMagnitudes (getPaintedWeights h))"

definition getAppliedWeightCount :: "WeightManager \<Rightarrow> nat" where
  "getAppliedWeightCount wm = length (weightMarkers wm)"

text \<open>Painting through the manager's tool.\<close>

definition paint :: "(vec3 \<times> Mesh) list \<Rightarrow> WeightManager \<Rightarrow> WeightManager" where
  "paint path wm = wm\<lparr>paintSelectionTool := paintPath path (paintSelectionTool wm)\<rparr>"

subsection \<open>Notions used to state the selection properties\<close>

text \<open>The keys of the \<open>faceData\<close> cache; the identities one brush application touches
  (\<open>brushHits\<close>) and those a whole brush path touches (\<open>pathHits\<close>).\<close>

definition faceDataKeys :: "PaintSelectionTool \<Rightarrow> nat set" where
  "faceDataKeys t = fst ` set (faceData t)"

definition brushHits :: "PaintSelectionTool \<Rightarrow> vec3 \<Rightarrow> Mesh \<Rightarrow> nat set" where
  "brushHits t worldPoint mesh =
     (if pst_hull t = None then {}
      else case geom_index mesh of
        None \<Rightarrow> {}
      | Some idx \<Rightarrow>
          getFaceUniqueId mesh `
            set (filter (withinBrush t mesh idx (worldToLocal mesh worldPoint))
                        [0 ..< (length idx + 2) div 3]))"

definition pathHits :: "PaintSelectionTool \<Rightarrow> (vec3 \<times> Mesh) list \<Rightarrow> nat set" where
  "pathHits t path = (\<Union>pm \<in> set path. brushHits t (fst pm) (snd pm))"

subsection \<open>A concrete surface, hull and manager\<close>

text \<open>Two triangles ten units apart on one surface with the identity transform, a hull of
  base weight 1000 with one custom load of 50, and a manager with 10 kg per face.\<close>

definition exampleIndex :: "nat list" where
  "exampleIndex = [0, 1, 2, 3, 4, 5]"

definition exampleMesh :: Mesh where
  "exampleMesh =
     \<lparr>mesh_id = 7,
      geom_positions = [0, 0, 0,  3, 0, 0,  0, 3, 0,  10, 0, 0,  13, 0, 0,  10, 3, 0],
      geom_index = Some exampleIndex,
      worldToLocal = (\<lambda>v. v), matrixWorld = (\<lambda>v. v)\<rparr>"

definition exampleHull :: Hull where
  "exampleHull =
     \<lparr>thickness = 0, weight = 1000,
      customWeights = [\<lparr>position = (0, 0, 0), magnitude = 50\<rparr>],
      paintedWeights = [],
      hullMesh = 7, transomMesh = None, bowMesh = None, deckMesh = None, stationsMesh = []\<rparr>"

definition exampleManager :: WeightManager where
  "exampleManager =
     \<lparr>wm_hull = Some exampleHull,
      paintSelectionTool = setHull_tool exampleHull newPaintSelectionTool,
      weightPerFace = 10, weightMarkers = []\<rparr>"

definition twoCommits :: WeightManager where
  "twoCommits =
     snd (applyWeightToSelection (paint [((11, 1, 0), exampleMesh)]
       (snd (applyWeightToSelection (paint [((1, 1, 0), exampleMesh)] exampleManager)))))"

subsection \<open>Offset table (QuoteTable.ts) and getters (getters.ts)\<close>

datatype Units = Unit_mm | Unit_ft | Unit_m

datatype Symmetry = Symmetric | Asymmetric

record QuoteTableMetadata =
  md_weight :: real
  hasKeel :: "bool option"
  hasChine :: "bool option"
  md_thickness :: real
  units :: Units
  symmetry :: "Symmetry option"

record WaterlineData =
  height :: real
  halfBreadthPort :: real
  halfBreadthStarboard :: "real option"

record Station =
  st_position :: real
  waterlines :: "WaterlineData list"

record QuoteTable =
  stations :: "Station list"
  metadata :: QuoteTableMetadata

text \<open>\<open>x || false\<close> for an optional boolean.\<close>

definition orFalse :: "bool option \<Rightarrow> bool" where
  "orFalse b = (case b of None \<Rightarrow> False | Some v \<Rightarrow> v)"

definition getUnitScale :: "Units \<Rightarrow> real" where
  "getUnitScale unit = (if unit = Unit_mm then 1 / 1000 else if unit = Unit_ft then 381 / 1250 else 1)"

text \<open>\<open>[...table.stations].sort((a, b) => a.position - b.position)\<close>: a stable sort.\<close>

definition getSortedStations :: "QuoteTable \<Rightarrow> Station list" where
  "getSortedStations table = sort_key st_position (stations table)"

text \<open>The heights of all samples, collected in a \<open>Set\<close> and sorted ascending.\<close>

definition getSortedWaterlines :: "QuoteTable \<Rightarrow> real list" where
  "getSortedWaterlines table =
     sort (remdups (concat (map (\<lambda>station. map height (waterlines station)) (stations table))))"

text \<open>\<open>arr[i]\<close>, which is \<open>undefined\<close> outside the array.\<close>

definition elemAt :: "'a list \<Rightarrow> nat \<Rightarrow> 'a option" where
  "elemAt xs i = (if i < length xs then Some (xs ! i) else None)"






subsection \<open>Vertex generation (generateVertices)\<close>

text \<open>The keys \<open>`${s}_${w}_star`\<close>, \<open>`${s}_${w}_port`\<close>, \<open>`${s}_${w}_chine_star`\<close> and
  \<open>`${s}_${w}_chine_port`\<close> of the vertex lookup.\<close>

datatype VertexSlot = Star | Port | ChineStar | ChinePort

type_synonym VertexKey = "nat \<times> nat \<times> VertexSlot"

record VertexGenerationResult =
  vertices :: "vec3 list"
  vertexMap :: "VertexKey \<Rightarrow> nat option"
  keelVertices :: "nat list"

text \<open>The body of the inner \<open>forEach\<close>: one waterline height at one station. The scale is
  \<open>stateManager.getUnits()\<close>. The NaN test of the source never fires on real numbers.\<close>

definition processWaterline ::
  "bool \<Rightarrow> bool \<Rightarrow> real \<Rightarrow> Station \<Rightarrow> nat \<Rightarrow> nat \<times> real \<Rightarrow>
   VertexGenerationResult \<Rightarrow> VertexGenerationResult" where
  "processWaterline hasK hasC scale station sIdx wh r =
     (let wIdx = fst wh; waterlineHeight = snd wh in
      case find (\<lambda>wl. height wl = waterlineHeight) (waterlines station) of
        None \<Rightarrow> r
      | Some wlData \<Rightarrow>
          (let zPos = st_position station * scale;
               yPos = waterlineHeight * scale;
               hbPort = halfBreadthPort wlData;
               hbStarboard = (case halfBreadthStarboard wlData of Some sb \<Rightarrow> sb | None \<Rightarrow> hbPort);
               xPort = hbPort * scale;
               xStarboard = hbStarboard * scale;
               r1 = (if hasK \<and> wIdx = 0
                     then r\<lparr>vertices := vertices r @ [(0, yPos - (1 / 20) * scale, zPos)],
                            keelVertices := keelVertices r @ [length (vertices r)]\<rparr>
                     else r);
               starboardIndex = length (vertices r1);
               portIndex = starboardIndex + 1;
               r2 = r1\<lparr>vertices := vertices r1 @ [(xStarboard, yPos, zPos), (- xPort, yPos, zPos)],
                        vertexMap := (vertexMap r1)((sIdx, wIdx, Star) \<mapsto> starboardIndex,
                                                     (sIdx, wIdx, Port) \<mapsto> portIndex)\<rparr>
           in if hasC \<and> wIdx = 0
              then r2\<lparr>vertices := vertices r2 @
                          [(xStarboard * (4 / 5), yPos, zPos), (- xPort * (4 / 5), yPos, zPos)],
                        vertexMap := (vertexMap r2)
                          ((sIdx, wIdx, ChineStar) \<mapsto> length (vertices r2),
                           (sIdx, wIdx, ChinePort) \<mapsto> length (vertices r2) + 1)\<rparr>
              else r2))"

definition processStation ::
  "bool \<Rightarrow> bool \<Rightarrow> real \<Rightarrow> real list \<Rightarrow> nat \<times> Station \<Rightarrow>
   VertexGenerationResult \<Rightarrow> VertexGenerationResult" where
  "processStation hasK hasC scale sortedWaterlines ss r =
     fold (processWaterline hasK hasC scale (snd ss) (fst ss)) (enumerate 0 sortedWaterlines) r"

definition generateVertices :: "QuoteTable \<Rightarrow> real \<Rightarrow> VertexGenerationResult" where
  "generateVertices table scale =
     (let hasK = orFalse (hasKeel (metadata table));
          hasC = orFalse (hasChine (metadata table));
          sortedStations = getSortedStations table;
          sortedWaterlines = getSortedWaterlines table
      in fold (processStation hasK hasC scale sortedWaterlines) (enumerate 0 sortedStations)
           \<lparr>vertices = [], vertexMap = (\<lambda>k. None), keelVertices = []\<rparr>)"

subsection \<open>Face generation (faces.ts, chine.ts, keel.ts, validators.ts)\<close>

text \<open>An index array holds numbers or \<open>undefined\<close>.\<close>

record PanelVertices =
  topLeft :: "nat option"
  topRight :: "nat option"
  bottomRight :: "nat option"
  bottomLeft :: "nat option"
  topLeftPort :: "nat option"
  topRightPort :: "nat option"
  bottomRightPort :: "nat option"
  bottomLeftPort :: "nat option"

record ChineVertices =
  chineTopLeft :: "nat option"
  chineTopRight :: "nat option"
  chineBottomLeft :: "nat option"
  chineBottomRight :: "nat option"
  chineTopLeftPort :: "nat option"
  chineTopRightPort :: "nat option"
  chineBottomLeftPort :: "nat option"
  chineBottomRightPort :: "nat option"

definition getPanelVertices :: "(VertexKey \<Rightarrow> nat option) \<Rightarrow> nat \<Rightarrow> nat \<Rightarrow> PanelVertices" where
  "getPanelVertices vm s w =
     \<lparr>topLeft = vm (s, w, Star), topRight = vm (s + 1, w, Star),
      bottomRight = vm (s + 1, w + 1, Star), bottomLeft = vm (s, w + 1, Star),
      topLeftPort = vm (s, w, Port), topRightPort = vm (s + 1, w, Port),
      bottomRightPort = vm (s + 1, w + 1, Port), bottomLeftPort = vm (s, w + 1, Port)\<rparr>"

definition getChineVertices :: "(VertexKey \<Rightarrow> nat option) \<Rightarrow> nat \<Rightarrow> nat \<Rightarrow> ChineVertices" where
  "getChineVertices vm s w =
     \<lparr>chineTopLeft = vm (s, w, ChineStar), chineTopRight = vm (s + 1, w, ChineStar),
      chineBottomLeft = vm (s, w + 1, Star), chineBottomRight = vm (s + 1, w + 1, Star),
      chineTopLeftPort = vm (s, w, ChinePort), chineTopRightPort = vm (s + 1, w, ChinePort),
      chineBottomLeftPort = vm (s, w + 1, Port), chineBottomRightPort = vm (s + 1, w + 1, Port)\<rparr>"

definition areVerticesValid :: "nat option list \<Rightarrow> bool" where
  "areVerticesValid is = list_all (\<lambda>i. i \<noteq> None) is"

definition areAllPanelVerticesValid :: "PanelVertices \<Rightarrow> bool" where
  "areAllPanelVerticesValid v =
     areVerticesValid [topLeft v, topRight v, bottomRight v, bottomLeft v,
                       topLeftPort v, topRightPort v, bottomRightPort v, bottomLeftPort v]"

definition areChineVerticesValid :: "ChineVertices \<Rightarrow> bool" where
  "areChineVerticesValid c =
     areVerticesValid [chineTopLeft c, chineTopRight c, chineBottomLeft c, chineBottomRight c,
                       chineTopLeftPort c, chineTopRightPort c, chineBottomLeftPort c,
                       chineBottomRightPort c]"

definition generateStandardPanel :: "nat option list \<Rightarrow> PanelVertices \<Rightarrow> nat option list" where
  "generateStandardPanel indices v =
     indices @ [topLeft v, topRight v, bottomRight v]
             @ [topLeft v, bottomRight v, bottomLeft v]
             @ [topLeftPort v, bottomLeftPort v, bottomRightPort v]
             @ [topLeftPort v, bottomRightPort v, topRightPort v]"

definition generateChinePanel ::
  "nat option list \<Rightarrow> (VertexKey \<Rightarrow> nat option) \<Rightarrow> nat \<Rightarrow> nat \<Rightarrow> nat option list" where
  "generateChinePanel indices vm s w =
     (let v = getPanelVertices vm s w; c = getChineVertices vm s w in
      if \<not> areChineVerticesValid c then indices
      else indices @ [topLeft v, topRight v, chineTopRight c]
                   @ [topLeft v, chineTopRight c, chineTopLeft c]
                   @ [chineTopLeft c, chineTopRight c, chineBottomRight c]
                   @ [chineTopLeft c, chineBottomRight c, chineBottomLeft c]
                   @ [topLeftPort v, chineTopLeftPort c, chineTopRightPort c]
                   @ [topLeftPort v, chineTopRightPort c, topRightPort v]
                   @ [chineTopLeftPort c, chineBottomLeftPort c, chineBottomRightPort c]
                   @ [chineTopLeftPort c, chineBottomRightPort c, chineTopRightPort c])"

definition generateKeelConnection ::
  "nat option list \<Rightarrow> (VertexKey \<Rightarrow> nat option) \<Rightarrow> nat list \<Rightarrow> nat \<Rightarrow> nat \<Rightarrow> nat option list" where
  "generateKeelConnection indices vm keelVs s w =
     (let keelLeft = elemAt keelVs s;
          keelRight = elemAt keelVs (s + 1);
          bottomCenterLeft = vm (s, w, Star);
          bottomCenterRight = vm (s + 1, w, Star);
          bottomCenterLeftPort = vm (s, w, Port);
          bottomCenterRightPort = vm (s + 1, w, Port)
      in if \<not> areVerticesValid [keelLeft, keelRight, bottomCenterLeft, bottomCenterRight,
                                 bottomCenterLeftPort, bottomCenterRightPort]
         then indices
         else indices @ [bottomCenterLeft, bottomCenterRight, keelRight]
                      @ [bottomCenterLeft, keelRight, keelLeft]
                      @ [bottomCenterLeftPort, keelLeft, keelRight]
                      @ [bottomCenterLeftPort, keelRight, bottomCenterRightPort])"

definition generatePanelFaces ::
  "nat option list \<Rightarrow> (VertexKey \<Rightarrow> nat option) \<Rightarrow> nat list \<Rightarrow> nat \<Rightarrow> nat \<Rightarrow> bool \<Rightarrow> bool \<Rightarrow>
   nat option list" where
  "generatePanelFaces indices vm keelVs s w hasK hasC =
     (let v = getPanelVertices vm s w in
      if \<not> areAllPanelVerticesValid v then indices
      else
        (let indices1 = (if hasC \<and> w = 0 then generateChinePanel indices vm s w
                         else generateStandardPanel indices v)
         in if hasK \<and> w = 0 then generateKeelConnection indices1 vm keelVs s w else indices1))"

definition generateFaces ::
  "QuoteTable \<Rightarrow> (VertexKey \<Rightarrow> nat option) \<Rightarrow> nat list \<Rightarrow> nat option list" where
  "generateFaces table vm keelVs =
     (let stationCount = length (getSortedStations table);
          waterlineCount = length (getSortedWaterlines table);
          hasK = orFalse (hasKeel (metadata table));
          hasC = orFalse (hasChine (metadata table))
      in fold (\<lambda>s indices.
                 fold (\<lambda>w indices'. generatePanelFaces indices' vm keelVs s w hasK hasC)
                      [0 ..< waterlineCount - 1] indices)
              [0 ..< stationCount - 1] [])"

subsection \<open>Cap and curve points (stations.ts, transom.ts, bow.ts, deck.ts, waterlines.ts)\<close>









subsection \<open>Interpolation (interpolateHullGrid in helpers.ts)\<close>

record LODConfig =
  stationMultiplier :: real
  waterlineMultiplier :: real
  enableSmoothing :: bool

text \<open>\<open>Math.max(2, Math.round((n - 1) * multiplier) + 1)\<close>; \<open>Math.round\<close> is
  \<open>\<lfloor>x + 1/2\<rfloor>\<close>, which is \<^const>\<open>round\<close>.\<close>

definition denseCount :: "nat \<Rightarrow> real \<Rightarrow> int" where
  "denseCount n multiplier = max 2 (round (real (n - 1) * multiplier) + 1)"

text \<open>The loop \<open>for (i = 0; i < count; i++) push(i / (count - 1) * (hi - lo) + lo)\<close>.\<close>

definition densePositions :: "int \<Rightarrow> real \<Rightarrow> real \<Rightarrow> real list" where
  "densePositions count lo hi =
     map (\<lambda>i. real i / real_of_int (count - 1) * (hi - lo) + lo) [0 ..< nat count]"

text \<open>The two stations that bracket a position and the ratio between them; outside the
  range the nearest station twice with ratio 0. (For two bracketing stations at the same
  position the source divides by zero; such tables are outside the model.)\<close>

definition bracketStations :: "Station list \<Rightarrow> real \<Rightarrow> Station \<times> Station \<times> real" where
  "bracketStations sortedStations stationPos =
     (case find (\<lambda>i. stationPos \<ge> st_position (sortedStations ! i) \<and>
                      stationPos \<le> st_position (sortedStations ! (i + 1)))
                [0 ..< length sortedStations - 1] of
        Some i \<Rightarrow>
          (let lowerStation = sortedStations ! i; upperStation = sortedStations ! (i + 1)
           in (lowerStation, upperStation,
               (stationPos - st_position lowerStation) /
               (st_position upperStation - st_position lowerStation)))
      | None \<Rightarrow>
          (let nearestStation =
                 fst (fold (\<lambda>station bm.
                              let dist = \<bar>stationPos - st_position station\<bar>
                              in if dist < snd bm then (station, dist) else bm)
                           sortedStations
                           (hd sortedStations, \<bar>stationPos - st_position (hd sortedStations)\<bar>))
           in (nearestStation, nearestStation, 0)))"

definition findNear :: "Station \<Rightarrow> real \<Rightarrow> WaterlineData option" where
  "findNear station h = find (\<lambda>wl. \<bar>height wl - h\<bar> < 1 / 1000) (waterlines station)"

definition interpolateWaterline ::
  "QuoteTable \<Rightarrow> Station \<Rightarrow> Station \<Rightarrow> real \<Rightarrow> real \<Rightarrow> WaterlineData" where
  "interpolateWaterline table lowerStation upperStation stationRatio waterlineHeight =
     (case (findNear lowerStation waterlineHeight, findNear upperStation waterlineHeight) of
        (Some lowerWlData, Some upperWlData) \<Rightarrow>
          \<lparr>height = waterlineHeight,
           halfBreadthPort = halfBreadthPort lowerWlData +
             (halfBreadthPort upperWlData - halfBreadthPort lowerWlData) * stationRatio,
           halfBreadthStarboard =
             (case (halfBreadthStarboard lowerWlData, halfBreadthStarboard upperWlData) of
                (Some lsb, Some usb) \<Rightarrow> Some (lsb + (usb - lsb) * stationRatio)
              | _ \<Rightarrow> None)\<rparr>
      | (Some lowerWlData, None) \<Rightarrow>
          \<lparr>height = waterlineHeight, halfBreadthPort = halfBreadthPort lowerWlData,
           halfBreadthStarboard = halfBreadthStarboard lowerWlData\<rparr>
      | (None, Some upperWlData) \<Rightarrow>
          \<lparr>height = waterlineHeight, halfBreadthPort = halfBreadthPort upperWlData,
           halfBreadthStarboard = halfBreadthStarboard upperWlData\<rparr>
      | (None, None) \<Rightarrow>
          (let lowerWaterlines = getSortedWaterlines table;
               bounds =
                 (case find (\<lambda>i. waterlineHeight \<ge> lowerWaterlines ! i \<and>
                                  waterlineHeight \<le> lowerWaterlines ! (i + 1))
                            [0 ..< length lowerWaterlines - 1] of
                    Some i \<Rightarrow>
                      (lowerWaterlines ! i, lowerWaterlines ! (i + 1),
                       (waterlineHeight - lowerWaterlines ! i) /
                       (lowerWaterlines ! (i + 1) - lowerWaterlines ! i))
                  | None \<Rightarrow> (0, 0, 0));
               lowerWl = fst bounds; upperWl = fst (snd bounds); waterlineRatio = snd (snd bounds)
           in case (findNear lowerStation lowerWl, findNear lowerStation upperWl,
                    findNear upperStation lowerWl, findNear upperStation upperWl) of
                (Some ll, Some lu, Some ul, Some uu) \<Rightarrow>
                  (let lowerStationValue = halfBreadthPort ll +
                         (halfBreadthPort lu - halfBreadthPort ll) * waterlineRatio;
                       upperStationValue = halfBreadthPort ul +
                         (halfBreadthPort uu - halfBreadthPort ul) * waterlineRatio
                   in \<lparr>height = waterlineHeight,
                       halfBreadthPort = lowerStationValue +
                         (upperStationValue - lowerStationValue) * stationRatio,
                       halfBreadthStarboard = None\<rparr>)
              | _ \<Rightarrow> \<lparr>height = waterlineHeight, halfBreadthPort = 0, halfBreadthStarboard = None\<rparr>))"

definition interpolateStation :: "QuoteTable \<Rightarrow> Station list \<Rightarrow> real list \<Rightarrow> real \<Rightarrow> Station" where
  "interpolateStation table sortedStations denseWaterlines stationPos =
     (case bracketStations sortedStations stationPos of
        (lowerStation, upperStation, stationRatio) \<Rightarrow>
          \<lparr>st_position = stationPos,
           waterlines = map (interpolateWaterline table lowerStation upperStation stationRatio)
                            denseWaterlines\<rparr>)"

definition interpolateHullGrid :: "QuoteTable \<Rightarrow> LODConfig \<Rightarrow> QuoteTable" where
  "interpolateHullGrid table config =
     (if stationMultiplier config \<le> 1 \<and> waterlineMultiplier config \<le> 1 then table
      else
        (let sortedStations = getSortedStations table;
             sortedWaterlines = getSortedWaterlines table
         in if length sortedStations = 0 \<or> length sortedWaterlines = 0 then table
            else
              (let denseStationCount = denseCount (length sortedStations) (stationMultiplier config);
                   denseStations = densePositions denseStationCount
                                     (st_position (hd sortedStations))
                                     (st_position (last sortedStations));
                   denseWaterlineCount = denseCount (length sortedWaterlines) (waterlineMultiplier config);
                   denseWaterlines = densePositions denseWaterlineCount
                                       (hd sortedWaterlines) (last sortedWaterlines)
               in \<lparr>stations = map (interpolateStation table sortedStations denseWaterlines) denseStations,
                   metadata = metadata table\<rparr>)))"

subsection \<open>Region classifier (group\_organizer.ts)\<close>

text \<open>The group tables are keyed by \<open>position.toString()\<close> and \<open>height.toString()\<close>; the
  number itself is the key here.\<close>

record GeometryGroups =
  grp_stations :: "real \<Rightarrow> nat list option"
  grp_waterlines :: "real \<Rightarrow> nat list option"
  deck :: "nat list"

definition emptyGroups :: GeometryGroups where
  "emptyGroups = \<lparr>grp_stations = (\<lambda>k. None), grp_waterlines = (\<lambda>k. None), deck = []\<rparr>"

text \<open>\<open>indices[k]\<close>: \<open>undefined\<close> outside the array or where the array holds \<open>undefined\<close>.\<close>

definition indexAt :: "nat option list \<Rightarrow> nat \<Rightarrow> nat option" where
  "indexAt indices k = (case elemAt indices k of None \<Rightarrow> None | Some v \<Rightarrow> v)"

text \<open>The scans for the closest station and the closest waterline: the first minimum
  under \<open><\<close>, starting from element 0.\<close>

definition closestBy :: "('a \<Rightarrow> real) \<Rightarrow> real \<Rightarrow> 'a list \<Rightarrow> 'a" where
  "closestBy key c xs =
     fst (fold (\<lambda>x bm. let dist = \<bar>c - key x\<bar> in if dist < snd bm then (x, dist) else bm)
               xs (hd xs, \<bar>c - key (hd xs)\<bar>))"

definition pushGroup :: "(real \<Rightarrow> nat list option) \<Rightarrow> real \<Rightarrow> nat \<Rightarrow> (real \<Rightarrow> nat list option)" where
  "pushGroup m k i = (case m k of None \<Rightarrow> m | Some l \<Rightarrow> m(k \<mapsto> l @ [i, i + 1, i + 2]))"

definition centroidOf :: "vec3 \<Rightarrow> vec3 \<Rightarrow> vec3 \<Rightarrow> vec3" where
  "centroidOf a b c =
     (case vadd (vadd (vadd (0, 0, 0) a) b) c of (x, y, z) \<Rightarrow> (x / 3, y / 3, z / 3))"

text \<open>The loop body for the face starting at index position \<open>i\<close>. \<open>None\<close> is the
  \<open>TypeError\<close> raised when a face index is \<open>undefined\<close>, which the source catches.\<close>

definition classifyFace ::
  "vec3 list \<Rightarrow> nat option list \<Rightarrow> Station list \<Rightarrow> real list \<Rightarrow> nat \<Rightarrow> GeometryGroups \<Rightarrow>
   GeometryGroups option" where
  "classifyFace vs indices sts wls i g =
     (let faceIndices = [indexAt indices i, indexAt indices (i + 1), indexAt indices (i + 2)] in
      if list_ex (\<lambda>idx. case idx of None \<Rightarrow> False | Some j \<Rightarrow> j \<ge> length vs) faceIndices
      then Some g
      else
        (case faceIndices of
           [Some a, Some b, Some c] \<Rightarrow>
             (let centroid = centroidOf (vs ! a) (vs ! b) (vs ! c);
                  cy = fst (snd centroid);
                  cz = snd (snd centroid);
                  closestStation = closestBy st_position cz sts;
                  closestWaterline = closestBy (\<lambda>h. h) cy wls;
                  g1 = g\<lparr>grp_stations := pushGroup (grp_stations g) (st_position closestStation) i\<rparr>;
                  g2 = g1\<lparr>grp_waterlines := pushGroup (grp_waterlines g1) closestWaterline i\<rparr>;
                  topWaterline = last wls;
                  isTopWaterline = (\<bar>cy - topWaterline\<bar> < 1 / 100)
              in Some (if isTopWaterline then g2\<lparr>deck := deck g2 @ [i, i + 1, i + 2]\<rparr> else g2))
         | _ \<Rightarrow> None))"

definition organizeGeometryGroups ::
  "vec3 list \<Rightarrow> nat option list \<Rightarrow> Station list \<Rightarrow> real list \<Rightarrow> GeometryGroups" where
  "organizeGeometryGroups vs indices sts wls =
     (if length vs = 0 \<or> length indices = 0 then emptyGroups
      else if length sts = 0 \<or> length wls = 0 then emptyGroups
      else
        (let g0 = \<lparr>grp_stations = fold (\<lambda>station m. m(st_position station \<mapsto> [])) sts (\<lambda>k. None),
                   grp_waterlines = fold (\<lambda>h m. m(h \<mapsto> [])) wls (\<lambda>k. None),
                   deck = []\<rparr>
         in case fold (\<lambda>i go. case go of None \<Rightarrow> None
                                | Some g \<Rightarrow> classifyFace vs indices sts wls i g)
                      (map (\<lambda>k. 3 * k) [0 ..< (length indices + 2) div 3]) (Some g0) of
              None \<Rightarrow> emptyGroups
            | Some g \<Rightarrow> g))"

subsection \<open>Mesh assembly (generateStructuredHullGeometry in hull.ts)\<close>

text \<open>The values a JavaScript number can take, for the validation of the vertex buffer.\<close>

datatype jsnum = Num real | PosInfinity | NegInfinity | NaN

definition isNaN :: "jsnum \<Rightarrow> bool" where
  "isNaN x = (x = NaN)"

definition isFinite :: "jsnum \<Rightarrow> bool" where
  "isFinite x = (case x of Num r \<Rightarrow> True | _ \<Rightarrow> False)"

text \<open>The geometry data and statistics of \<open>HullGeometry\<close>. Colours and the line and cap
  overlays, which play no part in the validation, are left out.\<close>

record HullGeometry =
  hg_vertices :: "jsnum list"
  hg_indices :: "nat list"
  hg_groups :: GeometryGroups
  vertexCount :: nat
  faceCount :: real
  stationCount :: nat
  waterlineCount :: nat

definition createEmptyHullGeometry :: HullGeometry where
  "createEmptyHullGeometry =
     \<lparr>hg_vertices = [], hg_indices = [], hg_groups = emptyGroups,
      vertexCount = 0, faceCount = 0, stationCount = 0, waterlineCount = 0\<rparr>"

text \<open>\<open>new Uint16Array(indices)\<close>.\<close>

definition toUint16 :: "nat option list \<Rightarrow> nat list" where
  "toUint16 indices = map (\<lambda>i. case i of None \<Rightarrow> 0 | Some n \<Rightarrow> n mod 65536) indices"

text \<open>The part of \<open>generateStructuredHullGeometry\<close> after vertices and faces have been
  generated: the emptiness test, the copy into the flat vertex array (rounding to single
  precision is not modelled), the NaN scan, and the assembly of the result. \<open>groups\<close> is
  what \<open>organizeGeometryGroups\<close> returns for these vertices and faces; it is always an
  object with its three fields, so the source's checks of its shape never fire.\<close>

definition assembleHullGeometry ::
  "(jsnum \<times> jsnum \<times> jsnum) list \<Rightarrow> nat option list \<Rightarrow> GeometryGroups \<Rightarrow> nat \<Rightarrow> nat \<Rightarrow>
   HullGeometry" where
  "assembleHullGeometry vs indices groups nStations nWaterlines =
     (if length vs = 0 \<or> length indices = 0 then createEmptyHullGeometry
      else
        (let vertexArray = concat (map (\<lambda>v. case v of (x, y, z) \<Rightarrow> [x, y, z]) vs) in
         if list_ex isNaN vertexArray then createEmptyHullGeometry
         else \<lparr>hg_vertices = vertexArray, hg_indices = toUint16 indices, hg_groups = groups,
               vertexCount = length vs, faceCount = real (length indices) / 3,
               stationCount = nStations, waterlineCount = nWaterlines\<rparr>))"

definition generateStructuredHullGeometry :: "QuoteTable \<Rightarrow> LODConfig \<Rightarrow> real \<Rightarrow> HullGeometry" where
  "generateStructuredHullGeometry table lodConfig scale =
     (let refinedData = (if stationMultiplier lodConfig > 1 \<or> waterlineMultiplier lodConfig > 1
                         then interpolateHullGrid table lodConfig else table);
          refinedStations = getSortedStations refinedData;
          refinedWaterlines = getSortedWaterlines refinedData;
          r = generateVertices refinedData scale;
          indices = generateFaces refinedData (vertexMap r) (keelVertices r)
      in assembleHullGeometry
           (map (\<lambda>v. case v of (x, y, z) \<Rightarrow> (Num x, Num y, Num z)) (vertices r)) indices
           (organizeGeometryGroups (vertices r) indices refinedStations refinedWaterlines)
           (length refinedStations) (length refinedWaterlines))"

subsection \<open>Concrete offset tables\<close>

text \<open>Three stations, three waterlines, metres, symmetric, keel, no chine.\<close>

definition meterTable :: QuoteTable where
  "meterTable =
     \<lparr>stations =
        [\<lparr>st_position = 0, waterlines =
            [\<lparr>height = 0, halfBreadthPort = 0, halfBreadthStarboard = None\<rparr>,
             \<lparr>height = 1/2, halfBreadthPort = 6/5, halfBreadthStarboard = None\<rparr>,
             \<lparr>height = 1, halfBreadthPort = 3/2, halfBreadthStarboard = None\<rparr>]\<rparr>,
         \<lparr>st_position = 5, waterlines =
            [\<lparr>height = 0, halfBreadthPort = 0, halfBreadthStarboard = None\<rparr>,
             \<lparr>height = 1/2, halfBreadthPort = 2, halfBreadthStarboard = None\<rparr>,
             \<lparr>height = 1, halfBreadthPort = 5/2, halfBreadthStarboard = None\<rparr>]\<rparr>,
         \<lparr>st_position = 10, waterlines =
            [\<lparr>height = 0, halfBreadthPort = 0, halfBreadthStarboard = None\<rparr>,
             \<lparr>height = 1/2, halfBreadthPort = 6/5, halfBreadthStarboard = None\<rparr>,
             \<lparr>height = 1, halfBreadthPort = 3/2, halfBreadthStarboard = None\<rparr>]\<rparr>],
      metadata = \<lparr>md_weight = 2000, hasKeel = Some True, hasChine = Some False,
                  md_thickness = 1/10, units = Unit_m, symmetry = Some Symmetric\<rparr>\<rparr>"

text \<open>Four stations and two waterlines with a keel, complete and with the lowest sample
  of station 1 removed; the faces of one panel as triples of vertex positions.\<close>

definition sym :: "real \<Rightarrow> real \<Rightarrow> WaterlineData" where
  "sym h b = \<lparr>height = h, halfBreadthPort = b, halfBreadthStarboard = None\<rparr>"

definition keelTable :: QuoteTable where
  "keelTable =
     \<lparr>stations =
        [\<lparr>st_position = 0, waterlines = [sym 0 1, sym 1 2]\<rparr>,
         \<lparr>st_position = 1, waterlines = [sym 0 1, sym 1 2]\<rparr>,
         \<lparr>st_position = 2, waterlines = [sym 0 1, sym 1 2]\<rparr>,
         \<lparr>st_position = 3, waterlines = [sym 0 1, sym 1 2]\<rparr>],
      metadata = \<lparr>md_weight = 0, hasKeel = Some True, hasChine = Some False,
                  md_thickness = 0, units = Unit_m, symmetry = Some Symmetric\<rparr>\<rparr>"

definition keelTableHoled :: QuoteTable where
  "keelTableHoled =
     \<lparr>stations =
        [\<lparr>st_position = 0, waterlines = [sym 0 1, sym 1 2]\<rparr>,
         \<lparr>st_position = 1, waterlines = [sym 1 2]\<rparr>,
         \<lparr>st_position = 2, waterlines = [sym 0 1, sym 1 2]\<rparr>,
         \<lparr>st_position = 3, waterlines = [sym 0 1, sym 1 2]\<rparr>],
      metadata = \<lparr>md_weight = 0, hasKeel = Some True, hasChine = Some False,
                  md_thickness = 0, units = Unit_m, symmetry = Some Symmetric\<rparr>\<rparr>"


definition panelFacePositions :: "QuoteTable \<Rightarrow> real \<Rightarrow> nat \<Rightarrow> nat \<Rightarrow> vec3 option list" where
  "panelFacePositions table scale s w =
     (let r = generateVertices table scale
      in map (\<lambda>i. case i of None \<Rightarrow> None | Some j \<Rightarrow> elemAt (vertices r) j)
             (generatePanelFaces [] (vertexMap r) (keelVertices r) s w
                (orFalse (hasKeel (metadata table))) (orFalse (hasChine (metadata table)))))"

text \<open>One hull given in millimetres and in metres: two stations, waterlines 20 mm apart.\<close>

definition deckTable :: QuoteTable where
  "deckTable =
     \<lparr>stations =
        [\<lparr>st_position = 0, waterlines = [sym 0 500, sym 20 500]\<rparr>,
         \<lparr>st_position = 1000, waterlines = [sym 0 500, sym 20 500]\<rparr>],
      metadata = \<lparr>md_weight = 0, hasKeel = Some False, hasChine = Some False,
                  md_thickness = 0, units = Unit_mm, symmetry = Some Symmetric\<rparr>\<rparr>"

definition baseLOD :: LODConfig where
  "baseLOD = \<lparr>stationMultiplier = 1, waterlineMultiplier = 1, enableSmoothing = False\<rparr>"

text \<open>The vertical coordinate of the centroid of the face at index position \<open>i\<close>.\<close>

definition faceCentroidY :: "vec3 list \<Rightarrow> nat option list \<Rightarrow> nat \<Rightarrow> real option" where
  "faceCentroidY vs indices i =
     (case (indexAt indices i, indexAt indices (i + 1), indexAt indices (i + 2)) of
        (Some a, Some b, Some c) \<Rightarrow>
          (if a < length vs \<and> b < length vs \<and> c < length vs
           then Some (fst (snd (centroidOf (vs ! a) (vs ! b) (vs ! c)))) else None)
      | _ \<Rightarrow> None)"


definition deckTableMetres :: QuoteTable where
  "deckTableMetres =
     \<lparr>stations =
        [\<lparr>st_position = 0, waterlines = [sym 0 (1/2), sym (1/50) (1/2)]\<rparr>,
         \<lparr>st_position = 1, waterlines = [sym 0 (1/2), sym (1/50) (1/2)]\<rparr>],
      metadata = \<lparr>md_weight = 0, hasKeel = Some False, hasChine = Some False,
                  md_thickness = 0, units = Unit_m, symmetry = Some Symmetric\<rparr>\<rparr>"

definition deckVertices :: "vec3 list" where
  "deckVertices = [(1 / 2, 0, 0), (- (1 / 2), 0, 0), (1 / 2, 1 / 50, 0), (- (1 / 2), 1 / 50, 0),
                   (1 / 2, 0, 1), (- (1 / 2), 0, 1), (1 / 2, 1 / 50, 1), (- (1 / 2), 1 / 50, 1)]"

definition deckIndices :: "nat option list" where
  "deckIndices = [Some 0, Some 4, Some 6, Some 0, Some 6, Some 2,
                  Some 1, Some 3, Some 7, Some 1, Some 7, Some 5]"

text \<open>Two stations without any waterline sample, and a configuration doubling the stations.\<close>

definition bareTable :: QuoteTable where
  "bareTable =
     \<lparr>stations = [\<lparr>st_position = 0, waterlines = []\<rparr>, \<lparr>st_position = 1, waterlines = []\<rparr>],
      metadata = \<lparr>md_weight = 0, hasKeel = None, hasChine = None,
                  md_thickness = 0, units = Unit_m, symmetry = None\<rparr>\<rparr>"


text \<open>The flat vertex array of a list of vertices.\<close>

definition flatten :: "('a \<times> 'a \<times> 'a) list \<Rightarrow> 'a list" where
  "flatten vs = concat (map (\<lambda>v. case v of (x, y, z) \<Rightarrow> [x, y, z]) vs)"

subsection \<open>Notions used to state the symmetric fallback\<close>






definition mirror :: "vec3 \<Rightarrow> vec3" where
  "mirror v = (case v of (x, y, z) \<Rightarrow> (- x, y, z))"






definition mirrorTriangle :: "vec3 option set \<Rightarrow> vec3 option set" where
  "mirrorTriangle T = map_option mirror ` T"






section \<open>Proofs: selection engine and weight ledger\<close>

lemma keys_map_set: "fst ` set (map_set k v m) = insert k (fst ` set m)"
  by (induction m) auto

lemma keys_map_delete: "fst ` set (map_delete k m) = fst ` set m - {k}"
  by (auto simp: map_delete_def)

lemma distinct_map_set: "distinct (map fst m) \<Longrightarrow> distinct (map fst (map_set k v m))"
proof (induction m)
  case Nil
  show ?case by simp
next
  case (Cons p m)
  have "fst p \<notin> fst ` set (map_set k v m)" if "fst p \<noteq> k"
    using Cons.prems that by (simp add: keys_map_set)
  then show ?case using Cons by auto
qed

lemma distinct_map_delete: "distinct (map fst m) \<Longrightarrow> distinct (map fst (map_delete k m))"
  by (simp add: map_delete_def distinct_map_filter)

lemma selectFace_frame:
  "brushSize (selectFace mesh idx mt lp fi t) = brushSize t"
  "isRemoving (selectFace mesh idx mt lp fi t) = isRemoving t"
  "pst_hull (selectFace mesh idx mt lp fi t) = pst_hull t"
  by (auto simp: selectFace_def Let_def split: option.splits)

lemma selectFace_selected:
  "selectedFaces (selectFace mesh idx mt lp fi t) =
     (if withinBrush t mesh idx lp fi
      then (if isRemoving t then selectedFaces t - {getFaceUniqueId mesh fi}
            else insert (getFaceUniqueId mesh fi) (selectedFaces t))
      else selectedFaces t)"
  by (auto simp: selectFace_def withinBrush_def Let_def split: option.splits)

lemma selectFace_keys:
  "faceDataKeys t = selectedFaces t \<Longrightarrow>
   faceDataKeys (selectFace mesh idx mt lp fi t) = selectedFaces (selectFace mesh idx mt lp fi t)"
  by (auto simp: selectFace_def faceDataKeys_def Let_def map_has_def keys_map_set keys_map_delete
      split: option.splits)

lemma selectFace_distinct:
  "distinct (map fst (faceData t)) \<Longrightarrow> distinct (map fst (faceData (selectFace mesh idx mt lp fi t)))"
  by (auto simp: selectFace_def Let_def distinct_map_set distinct_map_delete split: option.splits)

lemma withinBrush_cong:
  "brushSize t' = brushSize t \<Longrightarrow> withinBrush t' mesh idx lp fi = withinBrush t mesh idx lp fi"
  by (simp add: withinBrush_def split: option.splits)

lemma fold_selectFace_frame:
  "brushSize (fold (selectFace mesh idx mt lp) fs t) = brushSize t \<and>
   isRemoving (fold (selectFace mesh idx mt lp) fs t) = isRemoving t \<and>
   pst_hull (fold (selectFace mesh idx mt lp) fs t) = pst_hull t"
  by (induction fs arbitrary: t) (auto simp: selectFace_frame)

lemma fold_selectFace_selected:
  "selectedFaces (fold (selectFace mesh idx mt lp) fs t) =
     (if isRemoving t
      then selectedFaces t - getFaceUniqueId mesh ` {fi \<in> set fs. withinBrush t mesh idx lp fi}
      else selectedFaces t \<union> getFaceUniqueId mesh ` {fi \<in> set fs. withinBrush t mesh idx lp fi})"
proof (induction fs arbitrary: t)
  case Nil
  show ?case by simp
next
  case (Cons f fs)
  let ?t1 = "selectFace mesh idx mt lp f t"
  have w: "\<And>fi. withinBrush ?t1 mesh idx lp fi = withinBrush t mesh idx lp fi"
    by (rule withinBrush_cong) (simp add: selectFace_frame)
  show ?case
    using Cons.IH [of ?t1]
    by (auto simp: w selectFace_frame selectFace_selected)
qed

lemma fold_selectFace_keys:
  "faceDataKeys t = selectedFaces t \<Longrightarrow>
   faceDataKeys (fold (selectFace mesh idx mt lp) fs t) =
   selectedFaces (fold (selectFace mesh idx mt lp) fs t)"
  by (induction fs arbitrary: t) (auto simp: selectFace_keys)

lemma fold_selectFace_distinct:
  "distinct (map fst (faceData t)) \<Longrightarrow>
   distinct (map fst (faceData (fold (selectFace mesh idx mt lp) fs t)))"
  by (induction fs arbitrary: t) (auto simp: selectFace_distinct)

lemma selectFacesAroundPoint_frame:
  "brushSize (selectFacesAroundPoint p m t) = brushSize t \<and>
   isRemoving (selectFacesAroundPoint p m t) = isRemoving t \<and>
   pst_hull (selectFacesAroundPoint p m t) = pst_hull t"
  by (auto simp: selectFacesAroundPoint_def fold_selectFace_frame split: option.splits)

lemma selectFacesAroundPoint_selected:
  "selectedFaces (selectFacesAroundPoint p m t) =
     (if isRemoving t then selectedFaces t - brushHits t p m
      else selectedFaces t \<union> brushHits t p m)"
  by (auto simp: selectFacesAroundPoint_def brushHits_def fold_selectFace_selected
      split: option.splits)

lemma selectFacesAroundPoint_keys:
  "faceDataKeys t = selectedFaces t \<Longrightarrow>
   faceDataKeys (selectFacesAroundPoint p m t) = selectedFaces (selectFacesAroundPoint p m t)"
  by (auto simp: selectFacesAroundPoint_def fold_selectFace_keys split: option.splits)

lemma selectFacesAroundPoint_distinct:
  "distinct (map fst (faceData t)) \<Longrightarrow>
   distinct (map fst (faceData (selectFacesAroundPoint p m t)))"
  by (auto simp: selectFacesAroundPoint_def fold_selectFace_distinct split: option.splits)

lemma brushHits_cong:
  "brushSize t' = brushSize t \<Longrightarrow> pst_hull t' = pst_hull t \<Longrightarrow> brushHits t' p m = brushHits t p m"
  by (simp add: brushHits_def withinBrush_def split: option.splits cong: option.case_cong)

lemma paintPath_frame:
  "brushSize (paintPath path t) = brushSize t \<and>
   isRemoving (paintPath path t) = isRemoving t \<and>
   pst_hull (paintPath path t) = pst_hull t"
  unfolding paintPath_def
  by (induction path arbitrary: t) (auto simp: selectFacesAroundPoint_frame)

lemma paintPath_selected:
  "selectedFaces (paintPath path t) =
     (if isRemoving t then selectedFaces t - pathHits t path
      else selectedFaces t \<union> pathHits t path)"
proof (induction path arbitrary: t)
  case Nil
  show ?case by (simp add: paintPath_def pathHits_def)
next
  case (Cons pm path)
  let ?t1 = "selectFacesAroundPoint (fst pm) (snd pm) t"
  have h: "\<And>p m. brushHits ?t1 p m = brushHits t p m"
    by (rule brushHits_cong) (simp_all add: selectFacesAroundPoint_frame)
  have ph: "pathHits ?t1 path = pathHits t path"
    by (simp add: pathHits_def h)
  have step: "paintPath (pm # path) t = paintPath path ?t1"
    by (simp add: paintPath_def)
  show ?case
    unfolding step Cons.IH [of ?t1] ph
    by (auto simp: selectFacesAroundPoint_frame selectFacesAroundPoint_selected pathHits_def)
qed

lemma paintPath_keys:
  "faceDataKeys t = selectedFaces t \<Longrightarrow>
   faceDataKeys (paintPath path t) = selectedFaces (paintPath path t)"
  unfolding paintPath_def
  by (induction path arbitrary: t) (auto simp: selectFacesAroundPoint_keys)

lemma paintPath_distinct:
  "distinct (map fst (faceData t)) \<Longrightarrow> distinct (map fst (faceData (paintPath path t)))"
  unfolding paintPath_def
  by (induction path arbitrary: t) (auto simp: selectFacesAroundPoint_distinct)



lemma faces_upt: "length exampleIndex = 6" "[0 ..< 2] = [0, Suc 0]"
  by (simp_all add: exampleIndex_def upt_rec)

lemma center0: "faceCenterOf (geom_positions exampleMesh) exampleIndex 0 = Some (1, 1, 0)"
  by (simp add: faceCenterOf_def faceVertex_def exampleMesh_def exampleIndex_def vadd_def multiplyScalar_def)

lemma center1: "faceCenterOf (geom_positions exampleMesh) exampleIndex (Suc 0) = Some (11, 1, 0)"
  by (simp add: faceCenterOf_def faceVertex_def exampleMesh_def exampleIndex_def vadd_def multiplyScalar_def)


lemma exampleMesh_sel [simp]:
  "geom_index exampleMesh = Some exampleIndex" "mesh_id exampleMesh = 7"
  "worldToLocal exampleMesh v = v" "matrixWorld exampleMesh v = v"
  by (simp_all add: exampleMesh_def)

lemma distanceTo_same: "distanceTo a a = 0"
  by (cases a) (simp add: distanceTo_def)

lemma distanceTo_far:
  "distanceTo (11, 1, 0) (1, 1, 0) = 10" "distanceTo (1, 1, 0) (11, 1, 0) = 10"
proof -
  have "sqrt (10 * 10) = 10" by (simp only: real_sqrt_abs2 abs_numeral)
  then show "distanceTo (11, 1, 0) (1, 1, 0) = 10" "distanceTo (1, 1, 0) (11, 1, 0) = 10"
    by (simp_all add: distanceTo_def)
qed

lemma hits_first:
  assumes "pst_hull t \<noteq> None" and "brushSize t = 1/2"
  shows "brushHits t (1, 1, 0) exampleMesh = {7000000}"
  using assms(1)
  by (auto simp: brushHits_def faces_upt withinBrush_def center0 center1 distanceTo_same
      distanceTo_far assms(2) getFaceUniqueId_def)

lemma hits_second:
  assumes "pst_hull t \<noteq> None" and "brushSize t = 1/2"
  shows "brushHits t (11, 1, 0) exampleMesh = {7000001}"
  using assms(1)
  by (auto simp: brushHits_def faces_upt withinBrush_def center0 center1 distanceTo_same
      distanceTo_far assms(2) getFaceUniqueId_def)

lemma sumMagnitudes_sum_list: "sumMagnitudes ws = sum_list (map magnitude ws)"
proof -
  have "foldl (\<lambda>total w. total + magnitude w) a ws = a + sum_list (map magnitude ws)" for a
    by (induction ws arbitrary: a) auto
  then show ?thesis by (simp add: sumMagnitudes_def)
qed

lemma length_filter_keys:
  "distinct (map fst m) \<Longrightarrow> fst ` set m = S \<Longrightarrow> length (filter (\<lambda>p. fst p \<in> S) m) = card S"
proof -
  assume d: "distinct (map fst m)" and k: "fst ` set m = S"
  have "filter (\<lambda>p. fst p \<in> S) m = m" using k by (auto simp: filter_id_conv)
  moreover have "card S = length (map fst m)"
    using distinct_card [OF d] k by simp
  ultimately show ?thesis by simp
qed

lemma length_selectionWeights:
  "distinct (map fst (faceData (paintSelectionTool wm))) \<Longrightarrow>
   faceDataKeys (paintSelectionTool wm) = selectedFaces (paintSelectionTool wm) \<Longrightarrow>
   length (selectionWeights wm) = card (selectedFaces (paintSelectionTool wm))"
  by (simp add: selectionWeights_def getFaceData_def faceDataKeys_def length_filter_keys)

lemma sum_selectionWeights:
  "sumMagnitudes (selectionWeights wm) = real (length (selectionWeights wm)) * weightPerFace wm"
proof -
  have "sum_list (map (\<lambda>p. c) xs) = real (length xs) * c" for c :: real and xs :: "'b list"
    by (induction xs) (auto simp: algebra_simps)
  then show ?thesis
    by (simp add: sumMagnitudes_sum_list selectionWeights_def comp_def)
qed

lemma apply_success:
  assumes "wm_hull wm = Some h" and "faceData (paintSelectionTool wm) \<noteq> []"
  shows "applyWeightToSelection wm =
           (True, wm\<lparr>wm_hull := Some (setPaintedWeights (selectionWeights wm) h),
                     weightMarkers := createWeightMarkers (selectionWeights wm),
                     paintSelectionTool := clearSelection (paintSelectionTool wm)\<rparr>)"
  using assms by (simp add: applyWeightToSelection_def getFaceData_def Let_def)

lemma applied_after_commit:
  assumes "wm_hull wm = Some h" and "selectedFaces (paintSelectionTool wm) \<noteq> {}"
    and "distinct (map fst (faceData (paintSelectionTool wm)))"
    and "faceDataKeys (paintSelectionTool wm) = selectedFaces (paintSelectionTool wm)"
  shows "getAppliedWeight (snd (applyWeightToSelection wm)) =
           real (card (selectedFaces (paintSelectionTool wm))) * weightPerFace wm"
    and "getAppliedWeightCount (snd (applyWeightToSelection wm)) =
           card (selectedFaces (paintSelectionTool wm))"
    and "wm_hull (snd (applyWeightToSelection wm)) = Some (setPaintedWeights (selectionWeights wm) h)"
    and "weightPerFace (snd (applyWeightToSelection wm)) = weightPerFace wm"
    and "paintSelectionTool (snd (applyWeightToSelection wm)) = clearSelection (paintSelectionTool wm)"
    and "fst (applyWeightToSelection wm)"
proof -
  have ne: "faceData (paintSelectionTool wm) \<noteq> []"
    using assms(2,4) by (auto simp: faceDataKeys_def)
  note ap = apply_success [OF assms(1) ne]
  show "getAppliedWeight (snd (applyWeightToSelection wm)) =
           real (card (selectedFaces (paintSelectionTool wm))) * weightPerFace wm"
    by (simp add: ap getAppliedWeight_def getPaintedWeights_def setPaintedWeights_def
        sum_selectionWeights length_selectionWeights [OF assms(3,4)])
  show "getAppliedWeightCount (snd (applyWeightToSelection wm)) =
           card (selectedFaces (paintSelectionTool wm))"
    by (simp add: ap getAppliedWeightCount_def createWeightMarkers_def
        length_selectionWeights [OF assms(3,4)])
  show "wm_hull (snd (applyWeightToSelection wm)) = Some (setPaintedWeights (selectionWeights wm) h)"
    "weightPerFace (snd (applyWeightToSelection wm)) = weightPerFace wm"
    "paintSelectionTool (snd (applyWeightToSelection wm)) = clearSelection (paintSelectionTool wm)"
    "fst (applyWeightToSelection wm)"
    by (simp_all add: ap)
qed

lemma paint_sel:
  "selectedFaces (paintSelectionTool (paint path wm)) =
     (if isRemoving (paintSelectionTool wm)
      then selectedFaces (paintSelectionTool wm) - pathHits (paintSelectionTool wm) path
      else selectedFaces (paintSelectionTool wm) \<union> pathHits (paintSelectionTool wm) path)"
  "wm_hull (paint path wm) = wm_hull wm" "weightPerFace (paint path wm) = weightPerFace wm"
  by (simp_all add: paint_def paintPath_selected)

lemma paint_inv:
  "distinct (map fst (faceData (paintSelectionTool wm))) \<Longrightarrow>
   distinct (map fst (faceData (paintSelectionTool (paint path wm))))"
  "faceDataKeys (paintSelectionTool wm) = selectedFaces (paintSelectionTool wm) \<Longrightarrow>
   faceDataKeys (paintSelectionTool (paint path wm)) = selectedFaces (paintSelectionTool (paint path wm))"
  by (simp_all add: paint_def paintPath_distinct paintPath_keys)

lemma clearSelection_inv:
  "distinct (map fst (faceData (clearSelection t)))"
  "faceDataKeys (clearSelection t) = selectedFaces (clearSelection t)"
  "selectedFaces (clearSelection t) = {}"
  "isRemoving (clearSelection t) = isRemoving t" "brushSize (clearSelection t) = brushSize t"
  "pst_hull (clearSelection t) = pst_hull t"
  by (simp_all add: clearSelection_def faceDataKeys_def)


lemma second_commit_replaces:
  assumes hull: "wm_hull wm0 = Some h0"
    and d0: "distinct (map fst (faceData (paintSelectionTool wm0)))"
    and k0: "faceDataKeys (paintSelectionTool wm0) = selectedFaces (paintSelectionTool wm0)"
    and s1: "selectedFaces (paintSelectionTool (paint path1 wm0)) \<noteq> {}"
    and s2: "selectedFaces (paintSelectionTool
               (paint path2 (snd (applyWeightToSelection (paint path1 wm0))))) = S2"
    and ne2: "S2 \<noteq> {}"
  shows "getAppliedWeight (snd (applyWeightToSelection
           (paint path2 (snd (applyWeightToSelection (paint path1 wm0)))))) =
           real (card S2) * weightPerFace wm0"
    and "getAppliedWeightCount (snd (applyWeightToSelection
           (paint path2 (snd (applyWeightToSelection (paint path1 wm0)))))) = card S2"
proof -
  let ?wm1 = "paint path1 wm0"
  let ?wm2 = "snd (applyWeightToSelection ?wm1)"
  let ?wm3 = "paint path2 ?wm2"
  have h1: "wm_hull ?wm1 = Some h0" by (simp add: paint_sel hull)
  note a1 = applied_after_commit [OF h1 s1 paint_inv(1) [OF d0] paint_inv(2) [OF k0]]
  have t2: "paintSelectionTool ?wm2 = clearSelection (paintSelectionTool ?wm1)" by (rule a1(5))
  have d2: "distinct (map fst (faceData (paintSelectionTool ?wm2)))"
    and k2: "faceDataKeys (paintSelectionTool ?wm2) = selectedFaces (paintSelectionTool ?wm2)"
    by (simp_all add: t2 clearSelection_inv)
  have h3: "wm_hull ?wm3 = Some (setPaintedWeights (selectionWeights ?wm1) h0)"
    by (simp add: paint_sel a1(3))
  have ne3: "selectedFaces (paintSelectionTool ?wm3) \<noteq> {}" using s2 ne2 by simp
  note a3 = applied_after_commit [OF h3 ne3 paint_inv(1) [OF d2] paint_inv(2) [OF k2]]
  have w3: "weightPerFace ?wm3 = weightPerFace wm0" by (simp add: paint_sel a1(4))
  show "getAppliedWeight (snd (applyWeightToSelection ?wm3)) = real (card S2) * weightPerFace wm0"
    using a3(1) by (simp add: s2 w3)
  show "getAppliedWeightCount (snd (applyWeightToSelection ?wm3)) = card S2"
    using a3(2) by (simp add: s2)
qed

lemma exampleManager_facts:
  "wm_hull exampleManager = Some exampleHull"
  "weightPerFace exampleManager = 10"
  "weightMarkers exampleManager = []"
  "paintedWeights exampleHull = []"
  "weight exampleHull = 1000"
  "sumMagnitudes (customWeights exampleHull) = 50"
  "distinct (map fst (faceData (paintSelectionTool exampleManager)))"
  "faceDataKeys (paintSelectionTool exampleManager) = selectedFaces (paintSelectionTool exampleManager)"
  "selectedFaces (paintSelectionTool exampleManager) = {}"
  "pst_hull (paintSelectionTool exampleManager) \<noteq> None"
  "brushSize (paintSelectionTool exampleManager) = 1/2"
  "\<not> isRemoving (paintSelectionTool exampleManager)"
  by (simp_all add: exampleManager_def exampleHull_def setHull_tool_def newPaintSelectionTool_def
      faceDataKeys_def sumMagnitudes_def)

lemma example_first_selection:
  "selectedFaces (paintSelectionTool (paint [((1, 1, 0), exampleMesh)] exampleManager)) = {7000000}"
  by (simp add: paint_sel exampleManager_facts pathHits_def hits_first)

lemma example_second_selection:
  "selectedFaces (paintSelectionTool (paint [((11, 1, 0), exampleMesh)]
     (snd (applyWeightToSelection (paint [((1, 1, 0), exampleMesh)] exampleManager))))) = {7000001}"
proof -
  let ?wm1 = "paint [((1, 1, 0), exampleMesh)] exampleManager"
  have ne: "selectedFaces (paintSelectionTool ?wm1) \<noteq> {}"
    by (simp add: example_first_selection)
  have h1: "wm_hull ?wm1 = Some exampleHull" by (simp add: paint_sel exampleManager_facts)
  note a1 = applied_after_commit [OF h1 ne paint_inv(1) [OF exampleManager_facts(7)]
      paint_inv(2) [OF exampleManager_facts(8)]]
  have fr: "pst_hull (clearSelection (paintSelectionTool ?wm1)) \<noteq> None"
    "brushSize (clearSelection (paintSelectionTool ?wm1)) = 1/2"
    "\<not> isRemoving (clearSelection (paintSelectionTool ?wm1))"
    by (simp_all add: clearSelection_inv paint_def paintPath_frame exampleManager_facts)
  have "selectedFaces (paintSelectionTool (paint [((11, 1, 0), exampleMesh)]
          (snd (applyWeightToSelection ?wm1)))) =
        selectedFaces (clearSelection (paintSelectionTool ?wm1)) \<union>
        pathHits (clearSelection (paintSelectionTool ?wm1)) [((11, 1, 0), exampleMesh)]"
    unfolding paint_sel(1) a1(5) using fr(3) by simp
  then show ?thesis
    by (simp add: clearSelection_inv(3) pathHits_def hits_second [OF fr(1,2)])
qed

text \<open>
  Claim C1, as the code behaves. Starting from an empty applied-weight set with 10 kg per
  face: painting one face and applying, then painting a second, different face and
  applying again, leaves \<open>getAppliedWeight\<close> at 10 and \<open>getAppliedWeightCount\<close> at 1,
  because every apply replaces the painted weights and the markers by those of the
  current selection.
\<close>

theorem two_commits_replace:
  assumes "wm_hull wm0 = Some h0" and "paintedWeights h0 = []" and "weightMarkers wm0 = []"
    and "weightPerFace wm0 = 10"
    and "distinct (map fst (faceData (paintSelectionTool wm0)))"
    and "faceDataKeys (paintSelectionTool wm0) = selectedFaces (paintSelectionTool wm0)"
    and "selectedFaces (paintSelectionTool (paint path1 wm0)) = {f1}"
    and "selectedFaces (paintSelectionTool
           (paint path2 (snd (applyWeightToSelection (paint path1 wm0))))) = {f2}"
    and "f1 \<noteq> f2"
  shows "getAppliedWeight (snd (applyWeightToSelection
           (paint path2 (snd (applyWeightToSelection (paint path1 wm0)))))) = 10 \<and>
         getAppliedWeightCount (snd (applyWeightToSelection
           (paint path2 (snd (applyWeightToSelection (paint path1 wm0)))))) = 1"
proof -
  have ne1: "selectedFaces (paintSelectionTool (paint path1 wm0)) \<noteq> {}"
    using assms(7) by simp
  have ne2: "{f2} \<noteq> {}" by simp
  show ?thesis
    using second_commit_replaces [OF assms(1) assms(5) assms(6) ne1 assms(8) ne2]
    by (simp add: assms(4))
qed

theorem two_commits_replace_witness:
  "getAppliedWeight twoCommits = 10 \<and> getAppliedWeightCount twoCommits = 1"
  unfolding twoCommits_def
  by (rule two_commits_replace [OF exampleManager_facts(1) exampleManager_facts(4)
        exampleManager_facts(3) exampleManager_facts(2) exampleManager_facts(7)
        exampleManager_facts(8) example_first_selection example_second_selection]) simp

text \<open>On the concrete surface the two commits do not add up to 20 kg in 2 markers.\<close>

theorem two_commits_not_accumulated:
  "getAppliedWeight twoCommits \<noteq> 20 \<and> getAppliedWeightCount twoCommits \<noteq> 2"
proof -
  have ne1: "selectedFaces (paintSelectionTool (paint [((1, 1, 0), exampleMesh)] exampleManager)) \<noteq> {}"
    by (simp add: example_first_selection)
  have ne2: "{7000001::nat} \<noteq> {}" by simp
  note r = second_commit_replaces [OF exampleManager_facts(1) exampleManager_facts(7)
      exampleManager_facts(8) ne1 example_second_selection ne2]
  show ?thesis
    unfolding twoCommits_def using r by (simp add: exampleManager_facts)
qed





text \<open>
  Claim C9. Starting from an empty selection, painting a brush path in add mode and then
  the identical path (same points, same surfaces, same brush radius) in remove mode leaves
  the selection set empty.
\<close>

theorem add_then_remove_empty:
  assumes "selectedFaces t = {}"
  shows "selectedFaces (paintPath path (setRemoveMode True (paintPath path (setRemoveMode False t)))) = {}"
proof -
  let ?t0 = "setRemoveMode False t"
  let ?t1 = "paintPath path ?t0"
  let ?t2 = "setRemoveMode True ?t1"
  have s1: "selectedFaces ?t1 = pathHits ?t0 path"
    using assms by (simp add: paintPath_selected setRemoveMode_def)
  have "\<And>p m. brushHits ?t2 p m = brushHits ?t0 p m"
    by (rule brushHits_cong) (simp_all add: setRemoveMode_def paintPath_frame)
  then have "pathHits ?t2 path = pathHits ?t0 path"
    by (simp add: pathHits_def)
  moreover have "selectedFaces (paintPath path ?t2) = selectedFaces ?t2 - pathHits ?t2 path"
    by (simp add: paintPath_selected setRemoveMode_def)
  moreover have "selectedFaces ?t2 = selectedFaces ?t1"
    by (simp add: setRemoveMode_def)
  ultimately show ?thesis using s1 by simp
qed

theorem add_then_remove_empty_witness:
  "selectedFaces (paintPath [((1, 1, 0), exampleMesh), ((11, 1, 0), exampleMesh)]
      (setRemoveMode False (paintSelectionTool exampleManager))) = {7000000, 7000001} \<and>
   selectedFaces (paintPath [((1, 1, 0), exampleMesh), ((11, 1, 0), exampleMesh)]
      (setRemoveMode True (paintPath [((1, 1, 0), exampleMesh), ((11, 1, 0), exampleMesh)]
         (setRemoveMode False (paintSelectionTool exampleManager))))) = {}"
proof -
  have fr: "pst_hull (setRemoveMode False (paintSelectionTool exampleManager)) \<noteq> None"
    "brushSize (setRemoveMode False (paintSelectionTool exampleManager)) = 1/2"
    by (simp_all add: setRemoveMode_def exampleManager_facts)
  have "selectedFaces (paintPath [((1, 1, 0), exampleMesh), ((11, 1, 0), exampleMesh)]
      (setRemoveMode False (paintSelectionTool exampleManager))) = {7000000, 7000001}"
    by (auto simp: paintPath_selected pathHits_def hits_first [OF fr] hits_second [OF fr])
       (simp_all add: setRemoveMode_def exampleManager_facts)
  then show ?thesis
    using add_then_remove_empty [OF exampleManager_facts(9),
        of "[((1, 1, 0), exampleMesh), ((11, 1, 0), exampleMesh)]"]
    by simp
qed

text \<open>
  Claim C10. After \<open>selectFacesAroundPoint\<close> in add mode, after \<open>selectFacesAroundPoint\<close> in
  remove mode and after \<open>clearSelection\<close>, the key set of the \<open>faceData\<close> cache equals
  \<open>selectedFaces\<close>; it does so in a freshly constructed tool as well.
\<close>

theorem cache_keys_equal_selection:
  assumes "faceDataKeys t = selectedFaces t"
  shows "faceDataKeys (selectFacesAroundPoint p m (setRemoveMode False t)) =
           selectedFaces (selectFacesAroundPoint p m (setRemoveMode False t)) \<and>
         faceDataKeys (selectFacesAroundPoint p m (setRemoveMode True t)) =
           selectedFaces (selectFacesAroundPoint p m (setRemoveMode True t)) \<and>
         faceDataKeys (clearSelection t) = selectedFaces (clearSelection t) \<and>
         faceDataKeys newPaintSelectionTool = selectedFaces newPaintSelectionTool"
proof -
  have "faceDataKeys (setRemoveMode b t) = selectedFaces (setRemoveMode b t)" for b
    using assms by (simp add: setRemoveMode_def faceDataKeys_def)
  then show ?thesis
    by (simp add: selectFacesAroundPoint_keys clearSelection_inv)
       (simp add: newPaintSelectionTool_def faceDataKeys_def)
qed

theorem cache_keys_equal_selection_witness:
  "faceDataKeys (paintSelectionTool exampleManager) = selectedFaces (paintSelectionTool exampleManager) \<and>
   faceDataKeys (selectFacesAroundPoint (1, 1, 0) exampleMesh
       (setRemoveMode False (paintSelectionTool exampleManager))) = {7000000} \<and>
   selectedFaces (selectFacesAroundPoint (1, 1, 0) exampleMesh
       (setRemoveMode False (paintSelectionTool exampleManager))) = {7000000}"
proof -
  have fr: "pst_hull (setRemoveMode False (paintSelectionTool exampleManager)) \<noteq> None"
    "brushSize (setRemoveMode False (paintSelectionTool exampleManager)) = 1/2"
    by (simp_all add: setRemoveMode_def exampleManager_facts)
  have s: "selectedFaces (selectFacesAroundPoint (1, 1, 0) exampleMesh
       (setRemoveMode False (paintSelectionTool exampleManager))) = {7000000}"
    by (simp add: selectFacesAroundPoint_selected hits_first [OF fr])
       (simp add: setRemoveMode_def exampleManager_facts)
  show ?thesis
    using cache_keys_equal_selection [OF exampleManager_facts(8), of "(1, 1, 0)" exampleMesh] s
    by (simp add: exampleManager_facts)
qed
section \<open>Proofs: vertex and face generation\<close>

lemma fold_preserve:
  "P st \<Longrightarrow> (\<And>y s. y \<in> set xs \<Longrightarrow> P s \<Longrightarrow> P (f y s)) \<Longrightarrow> P (fold f xs st)"
  by (induction xs arbitrary: st) auto

lemma fold_establish:
  assumes "x \<in> set xs" and "\<And>s. P (f x s)" and "\<And>y s. y \<in> set xs \<Longrightarrow> P s \<Longrightarrow> P (f y s)"
  shows "P (fold f xs st)"
  using assms
proof (induction xs arbitrary: st)
  case Nil
  then show ?case by simp
next
  case (Cons a xs)
  show ?case
  proof (cases "x \<in> set xs")
    case True
    then show ?thesis using Cons by simp
  next
    case False
    then have "a = x" using Cons.prems(1) by simp
    then have "P (f a st)" using Cons.prems(2) by simp
    then have "P (fold f xs (f a st))"
      by (rule fold_preserve) (simp add: Cons.prems(3))
    then show ?thesis by simp
  qed
qed

lemma fold_unchanged:
  "(\<And>y s. y \<in> set xs \<Longrightarrow> g (f y s) = g s) \<Longrightarrow> g (fold f xs st) = g st"
  by (induction xs arbitrary: st) auto

lemma fold_count:
  "(\<And>y s. y \<in> set xs \<Longrightarrow> g (f y s) = Suc (g s)) \<Longrightarrow> g (fold f xs st) = g st + length xs"
  by (induction xs arbitrary: st) auto

lemma processWaterline_mono:
  "vertexMap r k \<noteq> None \<Longrightarrow> vertexMap (processWaterline hasK hasC scale st sIdx wh r) k \<noteq> None"
  by (auto simp: processWaterline_def Let_def split: option.splits)

lemma processWaterline_sets:
  "find (\<lambda>wl. height wl = h) (waterlines st) \<noteq> None \<Longrightarrow>
   vertexMap (processWaterline hasK hasC scale st sIdx (wIdx, h) r) (sIdx, wIdx, Star) \<noteq> None \<and>
   vertexMap (processWaterline hasK hasC scale st sIdx (wIdx, h) r) (sIdx, wIdx, Port) \<noteq> None"
  by (auto simp: processWaterline_def Let_def split: option.splits)

lemma processWaterline_keel_length:
  "length (keelVertices (processWaterline hasK hasC scale st sIdx (wIdx, h) r)) =
     length (keelVertices r) +
     (if hasK \<and> wIdx = 0 \<and> find (\<lambda>wl. height wl = h) (waterlines st) \<noteq> None then 1 else 0)"
  by (auto simp: processWaterline_def Let_def split: option.splits)

lemma processStation_mono:
  "vertexMap r k \<noteq> None \<Longrightarrow> vertexMap (processStation hasK hasC scale wls ss r) k \<noteq> None"
  unfolding processStation_def
  by (rule fold_preserve) (auto simp: processWaterline_mono)

lemma processStation_sets:
  assumes "w < length wls" and "find (\<lambda>wl. height wl = wls ! w) (waterlines st) \<noteq> None"
  shows "vertexMap (processStation hasK hasC scale wls (sIdx, st) r) (sIdx, w, Star) \<noteq> None \<and>
         vertexMap (processStation hasK hasC scale wls (sIdx, st) r) (sIdx, w, Port) \<noteq> None"
  unfolding processStation_def fst_conv snd_conv
proof (rule fold_establish [where x = "(w, wls ! w)"])
  show "(w, wls ! w) \<in> set (enumerate 0 wls)"
    using assms(1) by (simp add: in_set_enumerate_eq)
  show "\<And>s. vertexMap (processWaterline hasK hasC scale st sIdx (w, wls ! w) s) (sIdx, w, Star) \<noteq> None \<and>
             vertexMap (processWaterline hasK hasC scale st sIdx (w, wls ! w) s) (sIdx, w, Port) \<noteq> None"
    by (rule processWaterline_sets [OF assms(2)])
  show "\<And>y s. y \<in> set (enumerate 0 wls) \<Longrightarrow>
          vertexMap s (sIdx, w, Star) \<noteq> None \<and> vertexMap s (sIdx, w, Port) \<noteq> None \<Longrightarrow>
          vertexMap (processWaterline hasK hasC scale st sIdx y s) (sIdx, w, Star) \<noteq> None \<and>
          vertexMap (processWaterline hasK hasC scale st sIdx y s) (sIdx, w, Port) \<noteq> None"
    by (simp add: processWaterline_mono)
qed

lemma processStation_keel_length:
  assumes "hasK" and "wls \<noteq> []" and "find (\<lambda>wl. height wl = hd wls) (waterlines st) \<noteq> None"
  shows "length (keelVertices (processStation hasK hasC scale wls (sIdx, st) r)) =
           Suc (length (keelVertices r))"
proof -
  obtain h rest where wls: "wls = h # rest" using assms(2) by (cases wls) auto
  have rest: "length (keelVertices (fold (processWaterline hasK hasC scale st sIdx)
                 (enumerate (Suc 0) rest) s)) = length (keelVertices s)" for s
  proof (rule fold_unchanged)
    fix y s' assume "y \<in> set (enumerate (Suc 0) rest)"
    then have "fst y \<noteq> 0" by (auto simp: in_set_enumerate_eq)
    then show "length (keelVertices (processWaterline hasK hasC scale st sIdx y s')) =
               length (keelVertices s')"
      using processWaterline_keel_length [of hasK hasC scale st sIdx "fst y" "snd y" s'] by simp
  qed
  have step: "processStation hasK hasC scale wls (sIdx, st) r =
      fold (processWaterline hasK hasC scale st sIdx) (enumerate (Suc 0) rest)
        (processWaterline hasK hasC scale st sIdx (0, h) r)"
    by (simp add: processStation_def wls)
  have "find (\<lambda>wl. height wl = h) (waterlines st) \<noteq> None"
    using assms(3) by (simp add: wls)
  then show ?thesis
    unfolding step rest processWaterline_keel_length using assms(1) by simp
qed

lemma find_sample:
  "(\<exists>wl \<in> set (waterlines st). height wl = h) \<Longrightarrow>
   find (\<lambda>wl. height wl = h) (waterlines st) \<noteq> None"
  by (auto simp: find_None_iff)

lemma generateVertices_sets:
  assumes "s < length (getSortedStations t)" and "w < length (getSortedWaterlines t)"
    and "find (\<lambda>wl. height wl = getSortedWaterlines t ! w)
           (waterlines (getSortedStations t ! s)) \<noteq> None"
  shows "vertexMap (generateVertices t scale) (s, w, Star) \<noteq> None \<and>
         vertexMap (generateVertices t scale) (s, w, Port) \<noteq> None"
  unfolding generateVertices_def Let_def
proof (rule fold_establish [where x = "(s, getSortedStations t ! s)"])
  show "(s, getSortedStations t ! s) \<in> set (enumerate 0 (getSortedStations t))"
    using assms(1) by (simp add: in_set_enumerate_eq)
  show "\<And>r. vertexMap (processStation (orFalse (hasKeel (metadata t))) (orFalse (hasChine (metadata t)))
               scale (getSortedWaterlines t) (s, getSortedStations t ! s) r) (s, w, Star) \<noteq> None \<and>
             vertexMap (processStation (orFalse (hasKeel (metadata t))) (orFalse (hasChine (metadata t)))
               scale (getSortedWaterlines t) (s, getSortedStations t ! s) r) (s, w, Port) \<noteq> None"
    by (rule processStation_sets [OF assms(2,3)])
  show "\<And>y r. y \<in> set (enumerate 0 (getSortedStations t)) \<Longrightarrow>
          vertexMap r (s, w, Star) \<noteq> None \<and> vertexMap r (s, w, Port) \<noteq> None \<Longrightarrow>
          vertexMap (processStation (orFalse (hasKeel (metadata t))) (orFalse (hasChine (metadata t)))
               scale (getSortedWaterlines t) y r) (s, w, Star) \<noteq> None \<and>
          vertexMap (processStation (orFalse (hasKeel (metadata t))) (orFalse (hasChine (metadata t)))
               scale (getSortedWaterlines t) y r) (s, w, Port) \<noteq> None"
    by (simp add: processStation_mono)
qed

lemma generateVertices_keel_length:
  assumes "orFalse (hasKeel (metadata t))" and "getSortedWaterlines t \<noteq> []"
    and "\<forall>st \<in> set (getSortedStations t).
           find (\<lambda>wl. height wl = hd (getSortedWaterlines t)) (waterlines st) \<noteq> None"
  shows "length (keelVertices (generateVertices t scale)) = length (getSortedStations t)"
proof -
  have "length (keelVertices (fold (processStation (orFalse (hasKeel (metadata t)))
            (orFalse (hasChine (metadata t))) scale (getSortedWaterlines t))
          (enumerate 0 (getSortedStations t)) r0)) =
        length (keelVertices r0) + length (enumerate 0 (getSortedStations t))" for r0
  proof (rule fold_count)
    fix y r assume "y \<in> set (enumerate 0 (getSortedStations t))"
    then have "fst y < length (getSortedStations t)" "snd y = getSortedStations t ! fst y"
      by (simp_all add: in_set_enumerate_eq)
    then have "snd y \<in> set (getSortedStations t)"
      by simp
    then have f: "find (\<lambda>wl. height wl = hd (getSortedWaterlines t)) (waterlines (snd y)) \<noteq> None"
      using assms(3) by blast
    show "length (keelVertices (processStation (orFalse (hasKeel (metadata t)))
            (orFalse (hasChine (metadata t))) scale (getSortedWaterlines t) y r)) =
          Suc (length (keelVertices r))"
      using processStation_keel_length [OF assms(1,2) f, of _ scale "fst y" r] by simp
  qed
  then show ?thesis by (simp add: generateVertices_def Let_def)
qed


lemma processWaterline_no_chine:
  "vertexMap r (a, b, ChineStar) = None \<Longrightarrow>
   vertexMap (processWaterline hasK False scale st sIdx wh r) (a, b, ChineStar) = None"
  by (auto simp: processWaterline_def Let_def split: option.splits)

lemma generateVertices_no_chine:
  assumes "\<not> orFalse (hasChine (metadata t))"
  shows "vertexMap (generateVertices t scale) (a, b, ChineStar) = None"
  unfolding generateVertices_def Let_def
proof (rule fold_preserve)
  show "vertexMap \<lparr>vertices = [], vertexMap = \<lambda>k. None, keelVertices = []\<rparr> (a, b, ChineStar) = None"
    by simp
  fix y and r :: VertexGenerationResult
  assume r: "vertexMap r (a, b, ChineStar) = None"
  show "vertexMap (processStation (orFalse (hasKeel (metadata t)))
      (orFalse (hasChine (metadata t))) scale (getSortedWaterlines t) y r) (a, b, ChineStar) = None"
    unfolding processStation_def
  proof (rule fold_preserve)
    show "vertexMap r (a, b, ChineStar) = None" by (rule r)
    fix wh and r' :: VertexGenerationResult
    assume "vertexMap r' (a, b, ChineStar) = None"
    then show "vertexMap (processWaterline (orFalse (hasKeel (metadata t)))
        (orFalse (hasChine (metadata t))) scale (snd y) (fst y) wh r') (a, b, ChineStar) = None"
      using assms by (simp add: processWaterline_no_chine)
  qed
qed

lemma generateChinePanel_without_chine:
  "vm (s, w, ChineStar) = None \<Longrightarrow> generateChinePanel indices vm s w = indices"
  by (simp add: generateChinePanel_def getChineVertices_def areChineVerticesValid_def
      areVerticesValid_def Let_def)

lemma generateStandardPanel_append:
  "generateStandardPanel indices v = indices @ generateStandardPanel [] v"
  by (simp add: generateStandardPanel_def)

lemma generateKeelConnection_append:
  "generateKeelConnection indices vm kv s w = indices @ generateKeelConnection [] vm kv s w"
  by (simp add: generateKeelConnection_def Let_def)

lemma length_generateStandardPanel: "length (generateStandardPanel [] v) = 12"
  by (simp add: generateStandardPanel_def)

lemma generatePanelFaces_valid:
  assumes "areAllPanelVerticesValid (getPanelVertices vm s w)"
  shows "generatePanelFaces indices vm kv s w True False =
           indices @ generateStandardPanel [] (getPanelVertices vm s w) @
           (if w = 0 then generateKeelConnection [] vm kv s w else [])"
  using assms
  by (simp add: generatePanelFaces_def Let_def generateStandardPanel_append [of indices]
      generateKeelConnection_append [of "indices @ _"])

lemma sample_present:
  assumes full: "\<forall>st \<in> set (stations t). \<forall>h \<in> set (getSortedWaterlines t).
                   \<exists>wl \<in> set (waterlines st). height wl = h"
    and s: "s < length (stations t)" and w: "w < length (getSortedWaterlines t)"
  shows "vertexMap (generateVertices t scale) (s, w, Star) \<noteq> None \<and>
         vertexMap (generateVertices t scale) (s, w, Port) \<noteq> None"
proof -
  have s': "s < length (getSortedStations t)" using s by (simp add: getSortedStations_def)
  then have "getSortedStations t ! s \<in> set (getSortedStations t)" by simp
  then have st: "getSortedStations t ! s \<in> set (stations t)" by (simp add: getSortedStations_def)
  have h: "getSortedWaterlines t ! w \<in> set (getSortedWaterlines t)" using w by simp
  have "find (\<lambda>wl. height wl = getSortedWaterlines t ! w) (waterlines (getSortedStations t ! s)) \<noteq> None"
    using full st h by (intro find_sample) blast
  then show ?thesis by (rule generateVertices_sets [OF s' w])
qed

lemma keel_count:
  assumes full: "\<forall>st \<in> set (stations t). \<forall>h \<in> set (getSortedWaterlines t).
                   \<exists>wl \<in> set (waterlines st). height wl = h"
    and keel: "orFalse (hasKeel (metadata t))" and ne: "getSortedWaterlines t \<noteq> []"
  shows "length (keelVertices (generateVertices t scale)) = length (stations t)"
proof -
  have "hd (getSortedWaterlines t) \<in> set (getSortedWaterlines t)" using ne by simp
  then have "\<exists>wl \<in> set (waterlines st). height wl = hd (getSortedWaterlines t)"
    if "st \<in> set (stations t)" for st
    using full that by blast
  then have "\<forall>st \<in> set (getSortedStations t).
           find (\<lambda>wl. height wl = hd (getSortedWaterlines t)) (waterlines st) \<noteq> None"
    by (simp add: getSortedStations_def find_sample)
  from generateVertices_keel_length [OF keel ne this]
  show ?thesis by (simp add: getSortedStations_def)
qed

lemma standard_defined:
  "areAllPanelVerticesValid v \<Longrightarrow> None \<notin> set (generateStandardPanel [] v)"
  by (simp add: generateStandardPanel_def areAllPanelVerticesValid_def areVerticesValid_def
      eq_commute [of None] del: not_None_eq)

text \<open>
  Claim C3. For a symmetric metre-scale table with three stations and three waterline
  heights, keel and no chine, in which every station has a sample at every height, face
  generation yields the four standard panels of four triangles each (16), the keel
  connections of the two bottom-row panels of four triangles each (8), no chine triangle,
  hence 24 triangles, all of whose indices are defined.
\<close>

theorem keel_table_faces:
  assumes keel: "hasKeel (metadata t) = Some True"
    and chine: "hasChine (metadata t) = Some False"
    and units: "units (metadata t) = Unit_m"
    and symm: "\<forall>st \<in> set (stations t). \<forall>wl \<in> set (waterlines st). halfBreadthStarboard wl = None"
    and st3: "length (stations t) = 3"
    and wl3: "length (getSortedWaterlines t) = 3"
    and full: "\<forall>st \<in> set (stations t). \<forall>h \<in> set (getSortedWaterlines t).
                 \<exists>wl \<in> set (waterlines st). height wl = h"
    and vm: "vm = vertexMap (generateVertices t (getUnitScale (units (metadata t))))"
    and kv: "kv = keelVertices (generateVertices t (getUnitScale (units (metadata t))))"
  shows "generateFaces t vm kv =
           generateStandardPanel [] (getPanelVertices vm 0 0) @ generateKeelConnection [] vm kv 0 0 @
           generateStandardPanel [] (getPanelVertices vm 0 1) @
           generateStandardPanel [] (getPanelVertices vm 1 0) @ generateKeelConnection [] vm kv 1 0 @
           generateStandardPanel [] (getPanelVertices vm 1 1) \<and>
         length (generateStandardPanel [] (getPanelVertices vm 0 0)) = 3 * 4 \<and>
         length (generateStandardPanel [] (getPanelVertices vm 0 1)) = 3 * 4 \<and>
         length (generateStandardPanel [] (getPanelVertices vm 1 0)) = 3 * 4 \<and>
         length (generateStandardPanel [] (getPanelVertices vm 1 1)) = 3 * 4 \<and>
         length (generateKeelConnection [] vm kv 0 0) = 3 * 4 \<and>
         length (generateKeelConnection [] vm kv 1 0) = 3 * 4 \<and>
         (\<forall>s w. generateChinePanel [] vm s w = []) \<and>
         length (generateFaces t vm kv) = 3 * 24 \<and>
         None \<notin> set (generateFaces t vm kv)"
proof -
  let ?scale = "getUnitScale (units (metadata t))"
  have K: "orFalse (hasKeel (metadata t))" and C: "\<not> orFalse (hasChine (metadata t))"
    using keel chine by (simp_all add: orFalse_def)
  have present: "vm (s, w, Star) \<noteq> None \<and> vm (s, w, Port) \<noteq> None" if "s < 3" "w < 3" for s w
    unfolding vm using sample_present [OF full, of s w ?scale] that st3 wl3 by simp
  have ne: "getSortedWaterlines t \<noteq> []" using wl3 by auto
  have kvlen: "length kv = 3"
    unfolding kv using keel_count [OF full K ne, of ?scale] st3 by simp
  have valid: "areAllPanelVerticesValid (getPanelVertices vm s w)" if "s < 2" "w < 2" for s w
    using present [of s w] present [of "s + 1" w] present [of "s + 1" "w + 1"] present [of s "w + 1"] that
    by (simp add: areAllPanelVerticesValid_def areVerticesValid_def getPanelVertices_def)
  have keelpart: "generateKeelConnection [] vm kv s 0 =
      [vm (s, 0, Star), vm (s + 1, 0, Star), elemAt kv (s + 1),
       vm (s, 0, Star), elemAt kv (s + 1), elemAt kv s,
       vm (s, 0, Port), elemAt kv s, elemAt kv (s + 1),
       vm (s, 0, Port), elemAt kv (s + 1), vm (s + 1, 0, Port)] \<and>
      elemAt kv s \<noteq> None \<and> elemAt kv (s + 1) \<noteq> None" if "s < 2" for s
    using present [of s 0] present [of "s + 1" 0] that kvlen
    by (simp add: generateKeelConnection_def Let_def areVerticesValid_def elemAt_def)
  have counts: "[0 ..< length (getSortedStations t) - 1] = [0, Suc 0]"
    "[0 ..< length (getSortedWaterlines t) - 1] = [0, Suc 0]"
    using st3 wl3 by (simp_all add: getSortedStations_def upt_rec)
  have faces: "generateFaces t vm kv =
           generateStandardPanel [] (getPanelVertices vm 0 0) @ generateKeelConnection [] vm kv 0 0 @
           generateStandardPanel [] (getPanelVertices vm 0 1) @
           generateStandardPanel [] (getPanelVertices vm 1 0) @ generateKeelConnection [] vm kv 1 0 @
           generateStandardPanel [] (getPanelVertices vm 1 1)"
    unfolding generateFaces_def Let_def counts
    using valid [of 0 0] valid [of 0 1] valid [of 1 0] valid [of 1 1] K C
    by (simp add: generatePanelFaces_valid)
  have nochine: "generateChinePanel [] vm s w = []" for s w
    unfolding vm by (rule generateChinePanel_without_chine) (rule generateVertices_no_chine [OF C])
  have slen: "length (generateStandardPanel [] v) = 3 * 4" for v :: PanelVertices
    by (simp add: generateStandardPanel_def)
  have klen: "length (generateKeelConnection [] vm kv s 0) = 3 * 4" if "s < 2" for s
    using keelpart [OF that] by simp
  have k0: "length (generateKeelConnection [] vm kv 0 0) = 3 * 4"
    and k1: "length (generateKeelConnection [] vm kv 1 0) = 3 * 4"
    using klen [of 0] klen [of 1] by simp_all
  have total: "length (generateFaces t vm kv) = 3 * 24"
    unfolding faces length_append slen k0 k1 by simp
  have sdef: "None \<notin> set (generateStandardPanel [] (getPanelVertices vm s w))"
    if "s < 2" "w < 2" for s w
    by (rule standard_defined [OF valid [OF that]])
  have kdef: "None \<notin> set (generateKeelConnection [] vm kv s 0)" if "s < 2" for s
  proof -
    have "vm (s, 0, Star) \<noteq> None" "vm (s, 0, Port) \<noteq> None"
      "vm (s + 1, 0, Star) \<noteq> None" "vm (s + 1, 0, Port) \<noteq> None"
      using present [of s 0] present [of "s + 1" 0] that by simp_all
    moreover have "elemAt kv s \<noteq> None" "elemAt kv (s + 1) \<noteq> None"
      using keelpart [OF that] by simp_all
    moreover have "set (generateKeelConnection [] vm kv s 0) =
        {vm (s, 0, Star), vm (s + 1, 0, Star), elemAt kv (s + 1), elemAt kv s,
         vm (s, 0, Port), vm (s + 1, 0, Port)}"
      using keelpart [OF that] by (simp add: insert_commute)
    ultimately show ?thesis by (simp add: eq_commute [of None] del: not_None_eq)
  qed
  have alldef: "None \<notin> set (generateFaces t vm kv)"
    unfolding faces set_append
    using sdef [of 0 0] sdef [of 0 1] sdef [of 1 0] sdef [of 1 1] kdef [of 0] kdef [of 1]
    by simp
  have nc: "\<forall>s w. generateChinePanel [] vm s w = []"
    using nochine by simp
  show ?thesis
    using faces slen [of "getPanelVertices vm 0 0"] slen [of "getPanelVertices vm 0 1"]
      slen [of "getPanelVertices vm 1 0"] slen [of "getPanelVertices vm 1 1"]
      k0 k1 nc total alldef
    by (intro conjI)
qed


lemma meterTable_waterlines: "getSortedWaterlines meterTable = [0, 1/2, 1]"
  by (simp add: getSortedWaterlines_def meterTable_def)

lemma meterTable_full:
  "\<forall>st \<in> set (stations meterTable). \<forall>h \<in> set (getSortedWaterlines meterTable).
     \<exists>wl \<in> set (waterlines st). height wl = h"
  unfolding meterTable_waterlines by (simp add: meterTable_def)

theorem keel_table_faces_witness:
  "length (stations meterTable) = 3 \<and> getSortedWaterlines meterTable = [0, 1/2, 1] \<and>
   length (generateFaces meterTable (vertexMap (generateVertices meterTable 1))
             (keelVertices (generateVertices meterTable 1))) = 72"
proof -
  have m: "hasKeel (metadata meterTable) = Some True" "hasChine (metadata meterTable) = Some False"
    "units (metadata meterTable) = Unit_m" "length (stations meterTable) = 3"
    "\<forall>st \<in> set (stations meterTable). \<forall>wl \<in> set (waterlines st). halfBreadthStarboard wl = None"
    by (simp_all add: meterTable_def)
  have w3: "length (getSortedWaterlines meterTable) = 3" by (simp add: meterTable_waterlines)
  have sc: "getUnitScale (units (metadata meterTable)) = 1" by (simp add: m(3) getUnitScale_def)
  show ?thesis
    using keel_table_faces [OF m(1) m(2) m(3) m(5) m(4) w3 meterTable_full refl refl]
    by (simp add: sc m(4) meterTable_waterlines)
qed

section \<open>Proofs: station densification\<close>












section \<open>Proofs: panels next to a missing keel sample\<close>

text \<open>
  Claim C4 on a table the code handles wrongly. With a keel, removing the lowest sample
  of station 1 shifts the list of keel vertices, which is filled in station order but
  read by station index: the panel between stations 2 and 3, none of whose corners was
  removed, has eight triangles on the complete table and only its four standard
  triangles on the table with the hole.
\<close>

theorem keel_panel_changed_by_removed_sample:
  "length (panelFacePositions keelTable 1 2 0) = 3 * 8 \<and>
   panelFacePositions keelTableHoled 1 2 0 =
     [Some (1, 0, 2), Some (1, 0, 3), Some (2, 1, 3), Some (1, 0, 2), Some (2, 1, 3), Some (2, 1, 2),
      Some (- 1, 0, 2), Some (- 2, 1, 2), Some (- 2, 1, 3),
      Some (- 1, 0, 2), Some (- 2, 1, 3), Some (- 1, 0, 3)] \<and>
   keelVertices (generateVertices keelTable 1) = [0, 5, 10, 15] \<and>
   keelVertices (generateVertices keelTableHoled 1) = [0, 7, 12]"
  by code_simp

section \<open>Proofs: deck group and units\<close>

lemma deck_mm_vertices: "vertices (generateVertices deckTable (getUnitScale Unit_mm)) = deckVertices"
  by code_simp

lemma deck_mm_map: "generateFaces deckTable (vertexMap (generateVertices deckTable (getUnitScale Unit_mm)))
         (keelVertices (generateVertices deckTable (getUnitScale Unit_mm))) = deckIndices"
  by code_simp

lemma deck_m_vertices: "vertices (generateVertices deckTableMetres (getUnitScale Unit_m)) = deckVertices"
  by code_simp

lemma deck_m_map: "generateFaces deckTableMetres (vertexMap (generateVertices deckTableMetres (getUnitScale Unit_m)))
         (keelVertices (generateVertices deckTableMetres (getUnitScale Unit_m))) = deckIndices"
  by code_simp

lemma deck_sorted:
  "getSortedWaterlines deckTable = [0, 20]" "getSortedWaterlines deckTableMetres = [0, 1/50]"
  "getSortedStations deckTable = stations deckTable"
  "getSortedStations deckTableMetres = stations deckTableMetres"
  by (simp_all add: getSortedWaterlines_def getSortedStations_def deckTable_def deckTableMetres_def sym_def)

lemma organize_mm:
  "deck (organizeGeometryGroups deckVertices deckIndices (stations deckTable) [0, 20]) = []"
  by code_simp

lemma organize_m:
  "deck (organizeGeometryGroups deckVertices deckIndices (stations deckTableMetres) [0, 1/50]) = [3, 4, 5, 6, 7, 8]"
  by code_simp

lemma hg_groups_assemble:
  "vs \<noteq> [] \<Longrightarrow> indices \<noteq> [] \<Longrightarrow>
   hg_groups (assembleHullGeometry (map (\<lambda>v. case v of (x, y, z) \<Rightarrow> (Num x, Num y, Num z)) vs)
     indices g ns nw) = g"
proof -
  have "\<not> list_ex isNaN (concat (map (\<lambda>v. case v of (x, y, z) \<Rightarrow> [x, y, z])
          (map (\<lambda>v. case v of (x, y, z) \<Rightarrow> (Num x, Num y, Num z)) vs)))"
    by (induction vs) (auto simp: isNaN_def)
  then show "vs \<noteq> [] \<Longrightarrow> indices \<noteq> [] \<Longrightarrow> ?thesis"
    by (simp add: assembleHullGeometry_def Let_def)
qed

text \<open>
  Claim C8 on a table the code handles wrongly. The same hull in millimetres and in
  metres gives the same scaled vertices and faces. In metres the two faces whose centroid
  lies within 0.01 of the top waterline form the deck group. In millimetres the centroid
  of the face at index position 3 is 1/75, within 0.01 of the scaled top waterline
  20 mm = 0.02, yet the deck group is empty, because the scaled centroid is compared with
  the unscaled height 20.
\<close>

theorem deck_group_lost_in_millimetres:
  "vertices (generateVertices deckTable (getUnitScale Unit_mm)) =
     vertices (generateVertices deckTableMetres (getUnitScale Unit_m)) \<and>
   deck (hg_groups (generateStructuredHullGeometry deckTableMetres baseLOD (getUnitScale Unit_m))) =
     [3, 4, 5, 6, 7, 8] \<and>
   deck (hg_groups (generateStructuredHullGeometry deckTable baseLOD (getUnitScale Unit_mm))) = [] \<and>
   faceCentroidY deckVertices deckIndices 3 = Some (1 / 75) \<and>
   \<bar>1 / 75 - 20 * getUnitScale Unit_mm\<bar> < 1 / 100"
proof -
  have ne: "deckVertices \<noteq> []" "deckIndices \<noteq> []"
    by (simp_all add: deckVertices_def deckIndices_def)
  have m: "deck (hg_groups (generateStructuredHullGeometry deckTableMetres baseLOD (getUnitScale Unit_m))) =
     [3, 4, 5, 6, 7, 8]"
    by (simp add: generateStructuredHullGeometry_def baseLOD_def Let_def deck_m_vertices deck_m_map
        deck_sorted hg_groups_assemble [OF ne] organize_m)
  have mm: "deck (hg_groups (generateStructuredHullGeometry deckTable baseLOD (getUnitScale Unit_mm))) = []"
    by (simp add: generateStructuredHullGeometry_def baseLOD_def Let_def deck_mm_vertices deck_mm_map
        deck_sorted hg_groups_assemble [OF ne] organize_mm)
  have c: "faceCentroidY deckVertices deckIndices 3 = Some (1 / 75)"
    by code_simp
  have d: "\<bar>1 / 75 - 20 * getUnitScale Unit_mm\<bar> < 1 / 100"
    by (simp add: getUnitScale_def)
  show ?thesis
    using m mm c d by (simp add: deck_mm_vertices deck_m_vertices)
qed

section \<open>Proofs: validation of the vertex buffer\<close>

text \<open>
  Claim C7, as the code behaves. The assembly returns the empty placeholder exactly when
  there are no vertices, no faces, or a NaN among the coordinates of the flat vertex
  array; a build whose face list is empty ends in the placeholder. An infinite coordinate
  does not abort the build.
\<close>

theorem placeholder_iff_empty_or_nan:
  "(assembleHullGeometry vs indices g ns nw = createEmptyHullGeometry) =
     (vs = [] \<or> indices = [] \<or> NaN \<in> set (flatten vs)) \<and>
   ((let refinedData = (if stationMultiplier lod > 1 \<or> waterlineMultiplier lod > 1
                        then interpolateHullGrid t lod else t);
         r = generateVertices refinedData scale
     in generateFaces refinedData (vertexMap r) (keelVertices r)) = [] \<longrightarrow>
    generateStructuredHullGeometry t lod scale = createEmptyHullGeometry)"
proof -
  have ex: "list_ex isNaN (flatten vs) = (NaN \<in> set (flatten vs))"
    by (auto simp: list_ex_iff isNaN_def)
  have nonempty: "vs \<noteq> [] \<Longrightarrow> flatten vs \<noteq> []"
    by (cases vs) (auto simp: flatten_def)
  have fl: "concat (map (\<lambda>v. case v of (x, y, z) \<Rightarrow> [x, y, z]) vs) = flatten vs"
    by (simp add: flatten_def)
  have unfolded: "assembleHullGeometry vs indices g ns nw =
     (if vs = [] \<or> indices = [] then createEmptyHullGeometry
      else if NaN \<in> set (flatten vs) then createEmptyHullGeometry
      else \<lparr>hg_vertices = flatten vs, hg_indices = toUint16 indices, hg_groups = g,
            vertexCount = length vs, faceCount = real (length indices) / 3,
            stationCount = ns, waterlineCount = nw\<rparr>)"
    unfolding assembleHullGeometry_def Let_def fl ex by simp
  have a: "(assembleHullGeometry vs indices g ns nw = createEmptyHullGeometry) =
     (vs = [] \<or> indices = [] \<or> NaN \<in> set (flatten vs))"
  proof (cases "vs = [] \<or> indices = [] \<or> NaN \<in> set (flatten vs)")
    case True
    then show ?thesis unfolding unfolded by auto
  next
    case False
    then have "hg_vertices (assembleHullGeometry vs indices g ns nw) = flatten vs"
      unfolding unfolded by simp
    moreover have "hg_vertices createEmptyHullGeometry = []"
      by (simp add: createEmptyHullGeometry_def)
    moreover have "flatten vs \<noteq> []" using nonempty False by simp
    ultimately have "assembleHullGeometry vs indices g ns nw \<noteq> createEmptyHullGeometry"
      by metis
    then show ?thesis using False by simp
  qed
  have b: "(let refinedData = (if stationMultiplier lod > 1 \<or> waterlineMultiplier lod > 1
                        then interpolateHullGrid t lod else t);
         r = generateVertices refinedData scale
     in generateFaces refinedData (vertexMap r) (keelVertices r)) = [] \<longrightarrow>
    generateStructuredHullGeometry t lod scale = createEmptyHullGeometry"
    by (simp add: generateStructuredHullGeometry_def Let_def assembleHullGeometry_def)
  show ?thesis using a b by blast
qed

theorem placeholder_iff_empty_or_nan_witness:
  "assembleHullGeometry [(Num 0, NaN, Num 0)] [Some 0, Some 0, Some 0] emptyGroups 1 1 =
     createEmptyHullGeometry \<and>
   generateStructuredHullGeometry bareTable baseLOD 1 = createEmptyHullGeometry"
proof -
  have f: "generateFaces bareTable (vertexMap (generateVertices bareTable 1))
             (keelVertices (generateVertices bareTable 1)) = []"
    by code_simp
  show ?thesis
    using placeholder_iff_empty_or_nan [of "[(Num 0, NaN, Num 0)]" "[Some 0, Some 0, Some 0]"
        emptyGroups 1 1 baseLOD bareTable 1] f
    by (simp add: flatten_def baseLOD_def)
qed

text \<open>A vertex with an infinite coordinate goes through: the result is not the placeholder
  and its vertex array holds the infinity.\<close>

theorem infinite_coordinate_not_rejected:
  "\<not> isFinite PosInfinity \<and>
   assembleHullGeometry [(Num 0, PosInfinity, Num 0)] [Some 0, Some 0, Some 0] emptyGroups 1 1 \<noteq>
     createEmptyHullGeometry \<and>
   hg_vertices (assembleHullGeometry [(Num 0, PosInfinity, Num 0)] [Some 0, Some 0, Some 0]
     emptyGroups 1 1) = [Num 0, PosInfinity, Num 0]"
  by (simp add: assembleHullGeometry_def createEmptyHullGeometry_def isNaN_def isFinite_def Let_def)

section \<open>Proofs: symmetric fallback\<close>





























lemma mirror_mirror [simp]: "mirror (mirror v) = v"
  by (cases v) (simp add: mirror_def)









subsection \<open>Reflection of the generated triangles\<close>










lemma mirrorTriangle_involution [simp]: "mirrorTriangle (mirrorTriangle T) = T"
proof -
  have "map_option mirror (map_option mirror v) = v" for v by (cases v) simp_all
  then show ?thesis by (simp add: mirrorTriangle_def image_image)
qed































end
